theory Spec2Isabelle
  imports Complex_Main "HOL-Library.Word" "HOL-Library.Log_Nat"
begin

unbundle bit_operations_syntax

section \<open>Audio wire format: \<open>src/App.tsx\<close>, lines 10--46 and 215--225\<close>

text \<open>
  Typed arrays are lists of machine words: a \<open>Uint8Array\<close> is a list of 8-bit words, an
  \<open>Int16Array\<close> a list of 16-bit words read with \<open>sint\<close>. Audio samples and clock
  times are JavaScript numbers, IEEE doubles: they are modelled as the real numbers
  they denote, and an operation of the code that rounds its result (the division in
  the duration of a buffer, the addition that advances the watermark) rounds it in the
  model too, with \<open>to_double\<close>. Multiplying and dividing a sample by the power of two
  32768 and \<open>Math.max\<close> are exact. \<open>NaN\<close>, the infinities and the overflow to them
  are left out. A binary string (one code unit below 256
  per byte) and a base64 text are both \<open>string\<close>: an Isabelle \<open>char\<close> is exactly one such
  code unit.
\<close>

type_synonym byte = "8 word"
type_synonym int16 = "16 word"

datatype js_error =
    InvalidCharacterError   \<comment> \<open>\<open>atob\<close> on a text that is not base64\<close>
  | RangeError              \<comment> \<open>\<open>new Int16Array(buffer)\<close> on an odd byte length; \<open>start\<close> at a negative time\<close>
  | NotSupportedError       \<comment> \<open>\<open>createBuffer\<close> with no channel or no frame\<close>
  | TransportError          \<comment> \<open>whatever a call into the SDK's session throws\<close>

subsection \<open>The platform's base64 codec (\<open>btoa\<close>, \<open>atob\<close>)\<close>

definition b64_alphabet :: string where
  "b64_alphabet = ''ABCDEFGHIJKLMNOPQRSTUVWXYZabcdefghijklmnopqrstuvwxyz0123456789+/''"

definition b64_char :: "nat \<Rightarrow> char" where
  "b64_char i = b64_alphabet ! i"

definition b64_index :: "char \<Rightarrow> nat option" where
  "b64_index = map_of (zip b64_alphabet [0..<64])"

text \<open>Three octets become four 6-bit groups; a last group of one or two octets is
  filled with zero bits.\<close>

fun sextets :: "nat list \<Rightarrow> nat list" where
  "sextets (a # b # c # r) =
     [a div 4, (a mod 4) * 16 + b div 16, (b mod 16) * 4 + c div 64, c mod 64] @ sextets r"
| "sextets [a, b] = [a div 4, (a mod 4) * 16 + b div 16, (b mod 16) * 4]"
| "sextets [a] = [a div 4, (a mod 4) * 16]"
| "sextets [] = []"

text \<open>Four 6-bit groups become three octets; of a last group of two or three, the
  leftover bits are dropped.\<close>

fun octets :: "nat list \<Rightarrow> nat list" where
  "octets (p # q # r # s # rest) =
     [p * 4 + q div 16, (q mod 16) * 16 + r div 4, (r mod 4) * 64 + s] @ octets rest"
| "octets [p, q, r] = [p * 4 + q div 16, (q mod 16) * 16 + r div 4]"
| "octets [p, q] = [p * 4 + q div 16]"
| "octets _ = []"

definition btoa :: "string \<Rightarrow> string" where
  "btoa binary =
     map b64_char (sextets (map of_char binary))
       @ replicate ((3 - length binary mod 3) mod 3) (CHR ''='')"

definition is_ascii_whitespace :: "char \<Rightarrow> bool" where
  "is_ascii_whitespace c \<longleftrightarrow> (of_char c :: nat) \<in> {9, 10, 12, 13, 32}"

definition strip_padding :: "string \<Rightarrow> string" where
  "strip_padding d =
     (if d \<noteq> [] \<and> last d = CHR ''='' then
        (let d1 = butlast d in if d1 \<noteq> [] \<and> last d1 = CHR ''='' then butlast d1 else d1)
      else d)"

text \<open>\<open>atob\<close> is the forgiving base64 decoder of the platform: ASCII whitespace is
  removed, one or two trailing \<open>=\<close> are removed when the length is a multiple of four, a
  length of 1 modulo 4 or a character outside the alphabet is an error.\<close>

definition atob :: "string \<Rightarrow> js_error + string" where
  "atob base64 =
     (let d0 = filter (\<lambda>c. \<not> is_ascii_whitespace c) base64;
          d = (if length d0 mod 4 = 0 then strip_padding d0 else d0)
      in if length d mod 4 = 1 then Inl InvalidCharacterError
         else case those (map b64_index d) of
                None \<Rightarrow> Inl InvalidCharacterError
              | Some v \<Rightarrow> Inr (map char_of (octets v)))"

subsection \<open>\<open>decode\<close> and \<open>encode\<close>\<close>

text \<open>\<open>decode\<close>: \<open>bytes[i] = binaryString.charCodeAt(i)\<close> for every index.\<close>

definition decode :: "string \<Rightarrow> js_error + byte list" where
  "decode base64 =
     (case atob base64 of
        Inl e \<Rightarrow> Inl e
      | Inr binaryString \<Rightarrow> Inr (map (\<lambda>c. word_of_nat (of_char c)) binaryString))"

text \<open>\<open>encode\<close>: \<open>binary += String.fromCharCode(bytes[i])\<close> for every index, then
  \<open>btoa\<close>.\<close>

definition encode :: "byte list \<Rightarrow> string" where
  "encode bytes = btoa (map (\<lambda>b. char_of (unat b)) bytes)"

subsection \<open>Typed-array views of one buffer\<close>

text \<open>\<open>new Uint8Array(int16.buffer)\<close>: the bytes of the samples, low byte first
  (the byte order of the host, little-endian).\<close>

definition Uint8Array_of_Int16Array :: "int16 list \<Rightarrow> byte list" where
  "Uint8Array_of_Int16Array ws = concat (map (\<lambda>w. [ucast w, ucast (drop_bit 8 w)]) ws)"

text \<open>\<open>new Int16Array(data.buffer)\<close>: a \<open>RangeError\<close> when the byte length is odd.\<close>

fun Int16Array_of_Uint8Array :: "byte list \<Rightarrow> js_error + int16 list" where
  "Int16Array_of_Uint8Array [] = Inr []"
| "Int16Array_of_Uint8Array [b] = Inl RangeError"
| "Int16Array_of_Uint8Array (lo # hi # r) =
     (case Int16Array_of_Uint8Array r of
        Inl e \<Rightarrow> Inl e
      | Inr ws \<Rightarrow> Inr ((ucast lo OR push_bit 8 (ucast hi)) # ws))"

subsection \<open>Capture: floating-point samples to 16-bit PCM\<close>

text \<open>Storing a number into an \<open>Int16Array\<close> truncates it towards zero and keeps the low
  16 bits.\<close>

definition js_trunc :: "real \<Rightarrow> int" where
  "js_trunc x = (if 0 \<le> x then \<lfloor>x\<rfloor> else \<lceil>x\<rceil>)"

definition ToInt16 :: "real \<Rightarrow> int16" where
  "ToInt16 x = word_of_int (js_trunc x)"

text \<open>The loop of \<open>onaudioprocess\<close>: \<open>int16[i] = inputData[i] * 32768\<close>.\<close>

definition float_to_int16 :: "real list \<Rightarrow> int16 list" where
  "float_to_int16 inputData = map (\<lambda>x. ToInt16 (x * 32768)) inputData"

record pcm_blob =
  blob_data :: string
  mimeType :: string

definition pcmBlob :: "real list \<Rightarrow> pcm_blob" where
  "pcmBlob inputData =
     \<lparr> blob_data = encode (Uint8Array_of_Int16Array (float_to_int16 inputData)),
       mimeType = ''audio/pcm;rate=16000'' \<rparr>"

subsection \<open>Rounding to a double\<close>

text \<open>\<open>binade a\<close> is the exponent \<open>e\<close> with \<open>2^e \<le> a < 2^(e+1)\<close> of a positive
  \<open>a\<close>. A double has 53 significant bits, and its exponent is at least \<open>-1022\<close>
  (below that the spacing stays that of the subnormal numbers): \<open>to_double x\<close> is the
  multiple of \<open>2^(e-52)\<close> nearest to \<open>x\<close>, the even one of two equally near.\<close>

definition binade :: "real \<Rightarrow> int" where
  "binade a = (if 1 \<le> a then bitlen \<lfloor>a\<rfloor> - 1 else - bitlen (\<lceil>1 / a\<rceil> - 1))"

definition round_half_even :: "real \<Rightarrow> int" where
  "round_half_even y =
     (let f = \<lfloor>y\<rfloor>; r = y - of_int f
      in if r < 1 / 2 then f else if 1 / 2 < r then f + 1 else if even f then f else f + 1)"

definition to_double :: "real \<Rightarrow> real" where
  "to_double x =
     (if x = 0 then 0
      else (let e = max (binade \<bar>x\<bar>) (- 1022); q = 2 powi (e - 52)
            in sgn x * of_int (round_half_even (\<bar>x\<bar> / q)) * q))"

subsection \<open>\<open>decodeAudioData\<close>\<close>

record audio_buffer =
  channelData :: "real list list"
  sampleRate :: real
  frames :: nat

text \<open>\<open>audioBuffer.duration\<close>: the number of frames divided by the sample rate, as a
  double.\<close>

definition duration :: "audio_buffer \<Rightarrow> real" where
  "duration b = to_double (real (frames b) / sampleRate b)"

text \<open>\<open>createBuffer\<close> takes the frame count as an unsigned integer (the quotient is
  truncated) and refuses a buffer with no channel or no frame. Channel \<open>c\<close> receives
  \<open>dataInt16[i * numChannels + c] / 32768.0\<close> at every frame \<open>i\<close>.\<close>

definition decodeAudioData :: "byte list \<Rightarrow> real \<Rightarrow> nat \<Rightarrow> js_error + audio_buffer" where
  "decodeAudioData data rate numChannels =
     (case Int16Array_of_Uint8Array data of
        Inl e \<Rightarrow> Inl e
      | Inr dataInt16 \<Rightarrow>
          (let frameCount = length dataInt16 div numChannels in
           if numChannels = 0 \<or> frameCount = 0 then Inl NotSupportedError
           else Inr \<lparr> channelData =
                        map (\<lambda>channel.
                               map (\<lambda>i. real_of_int (sint (dataInt16 ! (i * numChannels + channel)))
                                          / 32768)
                                   [0..<frameCount])
                            [0..<numChannels],
                      sampleRate = rate,
                      frames = frameCount \<rparr>))"

text \<open>The path of one captured frame through the wire and back, as the two ends of the
  program compose it: \<open>pcmBlob\<close> on capture, \<open>decodeAudioData(decode(data), ctx, rate, 1)\<close>
  on playback.\<close>

definition round_trip :: "real list \<Rightarrow> js_error + real list" where
  "round_trip inputData =
     (case decode (blob_data (pcmBlob inputData)) of
        Inl e \<Rightarrow> Inl e
      | Inr bytes \<Rightarrow>
          (case decodeAudioData bytes 24000 1 of
             Inl e \<Rightarrow> Inl e
           | Inr buffer \<Rightarrow> Inr (hd (channelData buffer))))"

section \<open>Application state: the component \<open>App\<close>\<close>

text \<open>
  The React state variables and refs of \<open>App\<close> are the fields of one record, passed
  through every handler. Objects of the platform and of the SDK (sessions, script
  processors, buffer sources) are known by an identity, a natural number; what the
  program does to them is recorded in traces (\<open>sent\<close>, \<open>closed_sessions\<close>, \<open>disconnected\<close>,
  \<open>stopped\<close>, \<open>scheduled\<close>, \<open>console\<close>), so that two references to one object stay
  one object. What a handler cannot decide is its input \<open>env\<close>: the reading of the
  output clock, the random identifier and date of a new message, and whether a call into
  the SDK throws. A handler call is one atomic step: the only \<open>await\<close> inside a callback
  (line 165) waits for a promise that is settled already, and its continuation runs
  before any other handler.
\<close>

datatype ConnectionStatus = DISCONNECTED | CONNECTING | CONNECTED | ERROR

datatype role = User | Assistant

record Message =
  msg_id :: string
  role :: role
  msg_text :: string
  timestamp :: nat

datatype realtime_input = TextInput string | MediaInput pcm_blob

record playback_unit =
  source :: nat
  buffer :: audio_buffer
  start_at :: real    \<comment> \<open>the argument of \<open>source.start\<close>\<close>
  clock_at :: real    \<comment> \<open>\<open>ctx.currentTime\<close> as the handler read it\<close>

record env =
  currentTime :: real
  random_id :: string
  date_now :: nat
  send_throws :: bool
  close_throws :: bool

record app_state =
  messages :: "Message list"
  status :: ConnectionStatus
  isSpeaking :: bool
  isListening :: bool
  inputText :: string
  audioContext :: bool                      \<comment> \<open>\<open>audioContextRef.current\<close> is set\<close>
  outputAudioContext :: bool                \<comment> \<open>\<open>outputAudioContextRef.current\<close> is set\<close>
  nextStartTime :: real
  activeSources :: "nat list"               \<comment> \<open>a \<open>Set\<close>, in insertion order\<close>
  sessionRef :: "nat option"
  scriptProcessorRef :: "nat option"
  currentInputTranscription :: string
  currentOutputTranscription :: string
  next_source :: nat                        \<comment> \<open>identity of the next \<open>createBufferSource\<close>\<close>
  scheduled :: "playback_unit list"         \<comment> \<open>calls of \<open>source.start\<close> that returned\<close>
  stopped :: "nat list"                     \<comment> \<open>calls of \<open>source.stop\<close>\<close>
  sent :: "(nat \<times> realtime_input) list"     \<comment> \<open>calls of \<open>sendRealtimeInput\<close> that returned\<close>
  closed_sessions :: "nat list"             \<comment> \<open>calls of \<open>session.close\<close> that returned\<close>
  disconnected :: "nat list"                \<comment> \<open>calls of \<open>scriptProcessor.disconnect\<close>\<close>
  console :: "string list"

subsection \<open>Calls that may throw, and \<open>try\<close>/\<open>catch\<close>\<close>

definition try_catch :: "js_error + 'a \<Rightarrow> (js_error \<Rightarrow> 'a) \<Rightarrow> 'a" where
  "try_catch body handler = (case body of Inl e \<Rightarrow> handler e | Inr v \<Rightarrow> v)"

definition sendRealtimeInput :: "env \<Rightarrow> nat \<Rightarrow> realtime_input \<Rightarrow> app_state \<Rightarrow> js_error + app_state" where
  "sendRealtimeInput env session inp s =
     (if send_throws env then Inl TransportError else Inr (s\<lparr>sent := sent s @ [(session, inp)]\<rparr>))"

definition session_close :: "env \<Rightarrow> nat \<Rightarrow> app_state \<Rightarrow> js_error + app_state" where
  "session_close env session s =
     (if close_throws env then Inl TransportError
      else Inr (s\<lparr>closed_sessions := closed_sessions s @ [session]\<rparr>))"

definition console_error :: "string \<Rightarrow> app_state \<Rightarrow> app_state" where
  "console_error line s = s\<lparr>console := console s @ [line]\<rparr>"

definition Set_add :: "nat \<Rightarrow> nat list \<Rightarrow> nat list" where
  "Set_add x xs = (if x \<in> set xs then xs else xs @ [x])"

definition Set_delete :: "nat \<Rightarrow> nat list \<Rightarrow> nat list" where
  "Set_delete x xs = removeAll x xs"

subsection \<open>\<open>stopAllAudio\<close> (lines 72--79)\<close>

text \<open>Every active source is stopped (an exception of \<open>stop\<close> is swallowed and changes
  nothing), the set is cleared, the watermark is set to 0.\<close>

definition stopAllAudio :: "app_state \<Rightarrow> app_state" where
  "stopAllAudio s =
     s\<lparr> stopped := stopped s @ activeSources s,
        activeSources := [],
        nextStartTime := 0,
        isSpeaking := False \<rparr>"

subsection \<open>\<open>handleSendText\<close> (lines 81--98)\<close>

definition is_js_whitespace :: "char \<Rightarrow> bool" where
  "is_js_whitespace c \<longleftrightarrow> (of_char c :: nat) \<in> {9, 10, 11, 12, 13, 32, 160}"

definition trim :: "string \<Rightarrow> string" where
  "trim t = rev (dropWhile is_js_whitespace (rev (dropWhile is_js_whitespace t)))"

definition handleSendText :: "env \<Rightarrow> app_state \<Rightarrow> app_state" where
  "handleSendText env s =
     (if trim (inputText s) = [] \<or> sessionRef s = None \<or> status s \<noteq> CONNECTED then s
      else
        (let textToSend = trim (inputText s) in
         try_catch
           (case sendRealtimeInput env (the (sessionRef s)) (TextInput textToSend) s of
              Inl e \<Rightarrow> Inl e
            | Inr s1 \<Rightarrow>
                Inr (s1\<lparr> messages := messages s1 @
                             [\<lparr> msg_id = random_id env, role = User,
                                msg_text = textToSend, timestamp = date_now env \<rparr>],
                          inputText := [] \<rparr>))
           (\<lambda>err. console_error ''Failed to send text input:'' s)))"

subsection \<open>The transport callbacks (lines 132--193)\<close>

record blob =
  data :: "string option"

record part =
  inlineData :: "blob option"

text \<open>A transcription object of the SDK: its text is optional.\<close>

record Transcription =
  transcription_text :: "string option"

record server_content =
  outputTranscription :: "Transcription option"
  inputTranscription :: "Transcription option"
  turnComplete :: bool
  interrupted :: bool
  modelTurn_parts :: "part list option"

type_synonym LiveServerMessage = "server_content option"

definition onopen :: "app_state \<Rightarrow> app_state" where
  "onopen s = (s\<lparr>console := console s @ [''Lumi Session Socket Opened'']\<rparr>)
                \<lparr>status := CONNECTED, isListening := True\<rparr>"

text \<open>\<open>accumulator += transcription.text\<close>: a text that is \<open>undefined\<close> is appended as the
  string \<open>undefined\<close>.\<close>

definition appended_text :: "Transcription \<Rightarrow> string" where
  "appended_text tr = (case transcription_text tr of None \<Rightarrow> ''undefined'' | Some t \<Rightarrow> t)"

text \<open>Lines 138--142: the test is on the transcription object; one fragment is appended,
  the outbound one when both are there.\<close>

definition accumulate :: "LiveServerMessage \<Rightarrow> app_state \<Rightarrow> app_state" where
  "accumulate message s =
     (case message of
        None \<Rightarrow> s
      | Some sc \<Rightarrow>
          (case outputTranscription sc of
             Some tr \<Rightarrow>
               s\<lparr>currentOutputTranscription := currentOutputTranscription s @ appended_text tr\<rparr>
           | None \<Rightarrow>
               (case inputTranscription sc of
                  Some tr \<Rightarrow>
                    s\<lparr>currentInputTranscription := currentInputTranscription s @ appended_text tr\<rparr>
                | None \<Rightarrow> s)))"

definition is_turnComplete :: "LiveServerMessage \<Rightarrow> bool" where
  "is_turnComplete message = (case message of None \<Rightarrow> False | Some sc \<Rightarrow> turnComplete sc)"

definition is_interrupted :: "LiveServerMessage \<Rightarrow> bool" where
  "is_interrupted message = (case message of None \<Rightarrow> False | Some sc \<Rightarrow> interrupted sc)"

text \<open>Lines 144--156.\<close>

definition flush_turn :: "env \<Rightarrow> LiveServerMessage \<Rightarrow> app_state \<Rightarrow> app_state" where
  "flush_turn env message s =
     (if is_turnComplete message then
        (let assistantText = currentOutputTranscription s;
             s1 = (if assistantText \<noteq> [] then
                     s\<lparr>messages := messages s @
                          [\<lparr> msg_id = random_id env, role = Assistant,
                             msg_text = assistantText, timestamp = date_now env \<rparr>]\<rparr>
                   else s)
         in s1\<lparr>currentInputTranscription := [], currentOutputTranscription := []\<rparr>)
      else s)"

text \<open>Line 158: the data of the first part that has inline data.\<close>

definition base64Audio :: "LiveServerMessage \<Rightarrow> string option" where
  "base64Audio message =
     (case message of
        None \<Rightarrow> None
      | Some sc \<Rightarrow>
          (case modelTurn_parts sc of
             None \<Rightarrow> None
           | Some parts \<Rightarrow>
               (case find (\<lambda>p. inlineData p \<noteq> None) parts of
                  None \<Rightarrow> None
                | Some p \<Rightarrow> (case inlineData p of None \<Rightarrow> None | Some b \<Rightarrow> data b))))"

text \<open>Line 165: \<open>decodeAudioData(decode(base64Audio), ctx, 24000, 1)\<close>.\<close>

definition decoded_audio :: "string \<Rightarrow> js_error + audio_buffer" where
  "decoded_audio b64 =
     (case decode b64 of Inl e \<Rightarrow> Inl e | Inr bytes \<Rightarrow> decodeAudioData bytes 24000 1)"

text \<open>Lines 166--173: a new source is created and joins the active set.\<close>

definition add_source :: "app_state \<Rightarrow> app_state" where
  "add_source s =
     s\<lparr> next_source := Suc (next_source s),
        activeSources := Set_add (next_source s) (activeSources s) \<rparr>"

text \<open>Lines 174--175: the source \<open>src\<close> is started at the watermark (\<open>start\<close> throws at a
  negative time), and \<open>nextStartTimeRef.current += audioBuffer.duration\<close> advances the
  watermark: the sum is a double again.\<close>

definition start_source :: "env \<Rightarrow> nat \<Rightarrow> audio_buffer \<Rightarrow> app_state \<Rightarrow> js_error + app_state" where
  "start_source env src audioBuffer s =
     (if nextStartTime s < 0 then Inl RangeError
      else Inr (s\<lparr> scheduled := scheduled s @
                      [\<lparr> source = src, buffer = audioBuffer,
                         start_at = nextStartTime s, clock_at = currentTime env \<rparr>],
                   nextStartTime := to_double (nextStartTime s + duration audioBuffer) \<rparr>))"

text \<open>Lines 158--179. The watermark is clamped before the \<open>try\<close> block; a failure in
  the block is logged and keeps what the block did before it.\<close>

definition play_audio :: "env \<Rightarrow> LiveServerMessage \<Rightarrow> app_state \<Rightarrow> app_state" where
  "play_audio env message s =
     (case base64Audio message of
        None \<Rightarrow> s
      | Some b64 \<Rightarrow>
          if b64 = [] \<or> \<not> outputAudioContext s then s
          else
            (let s1 = s\<lparr> isSpeaking := True,
                        nextStartTime := max (nextStartTime s) (currentTime env) \<rparr>
             in case decoded_audio b64 of
                  Inl err \<Rightarrow> console_error ''Audio playback error:'' s1
                | Inr audioBuffer \<Rightarrow>
                    (let s2 = add_source s1
                     in try_catch (start_source env (next_source s1) audioBuffer s2)
                          (\<lambda>err. console_error ''Audio playback error:'' s2))))"

definition onmessage :: "env \<Rightarrow> LiveServerMessage \<Rightarrow> app_state \<Rightarrow> app_state" where
  "onmessage env message s =
     (let s1 = accumulate message s;
          s2 = flush_turn env message s1;
          s3 = play_audio env message s2
      in if is_interrupted message then stopAllAudio s3 else s3)"

text \<open>\<open>source.onended\<close> (lines 169--172).\<close>

definition onended :: "nat \<Rightarrow> app_state \<Rightarrow> app_state" where
  "onended src s =
     (let s1 = s\<lparr>activeSources := Set_delete src (activeSources s)\<rparr>
      in if activeSources s1 = [] then s1\<lparr>isSpeaking := False\<rparr> else s1)"

definition onerror :: "app_state \<Rightarrow> app_state" where
  "onerror s = (s\<lparr>console := console s @ [''Lumi Session Error Detail:'']\<rparr>)
                 \<lparr>status := ERROR, isListening := False\<rparr>"

definition onclose :: "app_state \<Rightarrow> app_state" where
  "onclose s = stopAllAudio ((s\<lparr>console := console s @ [''Lumi Session Closed'']\<rparr>)
                               \<lparr>status := DISCONNECTED, isListening := False\<rparr>)"

subsection \<open>\<open>onaudioprocess\<close> (lines 215--231)\<close>

text \<open>The frame is sent to the session of the enclosing \<open>handleStartSession\<close> call
  (\<open>sessionPromise\<close>); the handler of a rejection is \<open>() => {}\<close>.\<close>

definition onaudioprocess :: "nat \<Rightarrow> env \<Rightarrow> real list \<Rightarrow> app_state \<Rightarrow> app_state" where
  "onaudioprocess session env inputData s =
     try_catch (sendRealtimeInput env session (MediaInput (pcmBlob inputData)) s) (\<lambda>err. s)"

subsection \<open>\<open>handleStartSession\<close> (lines 100--245), cut at its \<open>await\<close>s\<close>

text \<open>Lines 103--110: the previous session is closed (an exception is swallowed), the
  previous processor disconnected, playback stopped.\<close>

definition handleStartSession_reset :: "env \<Rightarrow> app_state \<Rightarrow> app_state" where
  "handleStartSession_reset env s =
     (let s1 = (case sessionRef s of
                  None \<Rightarrow> s
                | Some session \<Rightarrow> try_catch (session_close env session s) (\<lambda>e. s));
          s2 = (case scriptProcessorRef s1 of
                  None \<Rightarrow> s1
                | Some p \<Rightarrow> s1\<lparr>disconnected := disconnected s1 @ [p]\<rparr>);
          s3 = stopAllAudio s2
      in s3\<lparr>status := CONNECTING\<rparr>)"

text \<open>Lines 113--118: both audio contexts exist afterwards.\<close>

definition handleStartSession_contexts :: "app_state \<Rightarrow> app_state" where
  "handleStartSession_contexts s = s\<lparr>audioContext := True, outputAudioContext := True\<rparr>"

definition greeting :: string where
  "greeting = ''Lumi, introduce yourself to the user. Acknowledge that you were created by Pralay, and politely ask for their name to get things started.''"

text \<open>Lines 207--239, once \<open>sessionPromise\<close> has resolved to \<open>session\<close> and the script
  processor \<open>p\<close> has been created.\<close>

definition handleStartSession_resolved :: "env \<Rightarrow> nat \<Rightarrow> nat \<Rightarrow> app_state \<Rightarrow> app_state" where
  "handleStartSession_resolved env session p s =
     (let s1 = s\<lparr>sessionRef := Some session, scriptProcessorRef := Some p\<rparr>
      in try_catch (sendRealtimeInput env session (TextInput greeting) s1)
           (\<lambda>err. (console_error ''Failed to initialize Lumi:'' s1)\<lparr>status := ERROR\<rparr>))"

text \<open>Lines 241--244, when a step after the reset (audio context, microphone,
  connection) throws or is rejected.\<close>

definition handleStartSession_failed :: "app_state \<Rightarrow> app_state" where
  "handleStartSession_failed s = (console_error ''Failed to initialize Lumi:'' s)\<lparr>status := ERROR\<rparr>"

subsection \<open>\<open>handleStopSession\<close> (lines 247--259)\<close>

definition handleStopSession :: "env \<Rightarrow> app_state \<Rightarrow> app_state" where
  "handleStopSession env s =
     (let s1 = (case sessionRef s of
                  None \<Rightarrow> s
                | Some session \<Rightarrow>
                    (try_catch (session_close env session s) (\<lambda>e. s))\<lparr>sessionRef := None\<rparr>);
          s2 = (case scriptProcessorRef s1 of
                  None \<Rightarrow> s1
                | Some p \<Rightarrow> s1\<lparr>disconnected := disconnected s1 @ [p], scriptProcessorRef := None\<rparr>);
          s3 = stopAllAudio s2
      in s3\<lparr>isListening := False, status := DISCONNECTED\<rparr>)"

subsection \<open>Every entry point of the component\<close>

text \<open>The input field (line 313): \<open>setInputText(e.target.value)\<close>.\<close>

definition setInputText :: "string \<Rightarrow> app_state \<Rightarrow> app_state" where
  "setInputText t s = s\<lparr>inputText := t\<rparr>"

datatype event =
    SendText
  | StartReset
  | StartContexts
  | StartResolved nat nat
  | StartFailed
  | OnOpen
  | OnMessage LiveServerMessage
  | OnError
  | OnClose
  | AudioProcess nat "real list"
  | Ended nat
  | StopSession
  | ClearMessages           \<comment> \<open>the header button: \<open>setMessages([])\<close>\<close>
  | SetInputText string

fun dispatch :: "env \<Rightarrow> event \<Rightarrow> app_state \<Rightarrow> app_state" where
  "dispatch env SendText s = handleSendText env s"
| "dispatch env StartReset s = handleStartSession_reset env s"
| "dispatch env StartContexts s = handleStartSession_contexts s"
| "dispatch env (StartResolved session p) s = handleStartSession_resolved env session p s"
| "dispatch env StartFailed s = handleStartSession_failed s"
| "dispatch env OnOpen s = onopen s"
| "dispatch env (OnMessage message) s = onmessage env message s"
| "dispatch env OnError s = onerror s"
| "dispatch env OnClose s = onclose s"
| "dispatch env (AudioProcess session inputData) s = onaudioprocess session env inputData s"
| "dispatch env (Ended src) s = onended src s"
| "dispatch env StopSession s = handleStopSession env s"
| "dispatch env ClearMessages s = s\<lparr>messages := []\<rparr>"
| "dispatch env (SetInputText t) s = setInputText t s"

text \<open>A sequence of handler calls, each with the inputs of its own moment.\<close>

fun run_events :: "(env \<times> event) list \<Rightarrow> app_state \<Rightarrow> app_state" where
  "run_events [] s = s"
| "run_events ((env, ev) # rest) s = run_events rest (dispatch env ev s)"

text \<open>The entry points that flush playback, that is, whose handler calls
  \<open>stopAllAudio\<close>: a message with the interrupted flag, the start of a session (its
  reset), the stop of the session, and the close of the transport.\<close>

definition flushes_playback :: "event \<Rightarrow> bool" where
  "flushes_playback ev =
     (case ev of
        StartReset \<Rightarrow> True
      | StopSession \<Rightarrow> True
      | OnClose \<Rightarrow> True
      | OnMessage message \<Rightarrow> is_interrupted message
      | _ \<Rightarrow> False)"

fun run_messages :: "(env \<times> LiveServerMessage) list \<Rightarrow> app_state \<Rightarrow> app_state" where
  "run_messages [] s = s"
| "run_messages ((env, message) # rest) s = run_messages rest (onmessage env message s)"

fun run_frames :: "nat \<Rightarrow> (env \<times> real list) list \<Rightarrow> app_state \<Rightarrow> app_state" where
  "run_frames session [] s = s"
| "run_frames session ((env, inputData) # rest) s =
     run_frames session rest (onaudioprocess session env inputData s)"

text \<open>The state of the component when it is mounted (lines 49--64).\<close>

definition initial_state :: app_state where
  "initial_state =
     \<lparr> messages = [], status = DISCONNECTED, isSpeaking = False, isListening = False,
       inputText = [], audioContext = False, outputAudioContext = False,
       nextStartTime = 0, activeSources = [],
       sessionRef = None, scriptProcessorRef = None,
       currentInputTranscription = [], currentOutputTranscription = [],
       next_source = 0, scheduled = [], stopped = [], sent = [], closed_sessions = [],
       disconnected = [], console = [] \<rparr>"

text \<open>The watermark that the code leaves behind a unit: the sum of its start and its
  duration, as the double that \<open>+=\<close> stores.\<close>

definition end_mark :: "playback_unit \<Rightarrow> real" where
  "end_mark u = to_double (start_at u + duration (buffer u))"

text \<open>Playback units in the order of their scheduling: each starts at or after the mark
  \<open>w\<close> left by what came before it and at or after the clock reading of its own
  scheduling, and the end mark of each is the mark of the next.\<close>

fun monotone_from :: "real \<Rightarrow> playback_unit list \<Rightarrow> bool" where
  "monotone_from w [] = True"
| "monotone_from w (u # rest) =
     (w \<le> start_at u \<and> clock_at u \<le> start_at u \<and> monotone_from (end_mark u) rest)"

text \<open>The end mark of a unit is within one rounding of the exact sum of its start and
  its duration: a relative distance of at most \<open>2^-53\<close>.\<close>

definition end_mark_near :: "playback_unit \<Rightarrow> bool" where
  "end_mark_near u \<longleftrightarrow>
     \<bar>end_mark u - (start_at u + duration (buffer u))\<bar>
       \<le> (start_at u + duration (buffer u)) / 2 ^ 53"

text \<open>What a message adds to the outbound accumulator.\<close>

definition output_fragment :: "LiveServerMessage \<Rightarrow> string" where
  "output_fragment message =
     (case message of
        None \<Rightarrow> []
      | Some sc \<Rightarrow>
          (case outputTranscription sc of None \<Rightarrow> [] | Some tr \<Rightarrow> appended_text tr))"

definition user_messages :: "app_state \<Rightarrow> Message list" where
  "user_messages s = filter (\<lambda>m. role m = User) (messages s)"

subsection \<open>Sample inputs\<close>

definition env_at :: "real \<Rightarrow> env" where
  "env_at t = \<lparr> currentTime = t, random_id = ''k3x9q2m1z'', date_now = 0,
               send_throws = False, close_throws = False \<rparr>"

definition plain_content :: server_content where
  "plain_content = \<lparr> outputTranscription = None, inputTranscription = None,
                     turnComplete = False, interrupted = False, modelTurn_parts = None \<rparr>"

definition audio_message :: "string \<Rightarrow> LiveServerMessage" where
  "audio_message b64 =
     Some (plain_content\<lparr>modelTurn_parts := Some [\<lparr>inlineData = Some \<lparr>data = Some b64\<rparr>\<rparr>]\<rparr>)"

definition interrupt_message :: LiveServerMessage where
  "interrupt_message = Some (plain_content\<lparr>interrupted := True\<rparr>)"

definition fragment_message :: "string \<Rightarrow> LiveServerMessage" where
  "fragment_message t =
     Some (plain_content\<lparr>outputTranscription := Some \<lparr>transcription_text = Some t\<rparr>\<rparr>)"

text \<open>An outbound transcription object that carries no text.\<close>

definition textless_fragment_message :: LiveServerMessage where
  "textless_fragment_message =
     Some (plain_content\<lparr>outputTranscription := Some \<lparr>transcription_text = None\<rparr>\<rparr>)"

definition turn_complete_message :: LiveServerMessage where
  "turn_complete_message = Some (plain_content\<lparr>turnComplete := True\<rparr>)"

text \<open>A connected session: session 1 with script processor 1, the output context
  created.\<close>

definition connected_state :: app_state where
  "connected_state =
     initial_state\<lparr> status := CONNECTED, isListening := True, audioContext := True,
                    outputAudioContext := True, sessionRef := Some 1,
                    scriptProcessorRef := Some 1 \<rparr>"

text \<open>Three audio chunks of one, two and one frames: two in a burst at clock 5, one
  late at clock 7, after the first source has ended.\<close>

definition burst :: "(env \<times> event) list" where
  "burst = [(env_at 5, OnMessage (audio_message ''AAA='')),
            (env_at 5, OnMessage (audio_message ''AAAAAA=='')),
            (env_at 6, Ended 0),
            (env_at 7, OnMessage (audio_message ''AAA=''))]"

text \<open>What the chunk \<open>AAA=\<close> decodes to: one frame of silence at 24 kHz.\<close>

definition one_frame :: audio_buffer where
  "one_frame = \<lparr> channelData = [[0]], sampleRate = 24000, frames = 1 \<rparr>"

text \<open>A session in the middle of playback: the watermark stood at 9 when a chunk of two
  frames arrived at clock 2.\<close>

definition playing_state :: app_state where
  "playing_state =
     onmessage (env_at 2) (audio_message ''AAAAAA=='') (connected_state\<lparr>nextStartTime := 9\<rparr>)"

text \<open>Two chunks that arrive at clock 4, after an interruption.\<close>

definition after_interrupt :: "(env \<times> event) list" where
  "after_interrupt = [(env_at 4, OnMessage (audio_message ''AAA='')),
                      (env_at 4, OnMessage (audio_message ''AAA=''))]"

text \<open>The two outbound fragments of one turn.\<close>

definition hello_fragments :: "(env \<times> LiveServerMessage) list" where
  "hello_fragments = [(env_at 1, fragment_message ''Hel''), (env_at 2, fragment_message ''lo'')]"

text \<open>An environment in which every call into the SDK throws.\<close>

definition failing_env :: env where
  "failing_env = (env_at 1)\<lparr>send_throws := True, close_throws := True\<rparr>"

text \<open>Three captured frames; the send of the second one fails.\<close>

definition three_frames :: "(env \<times> real list) list" where
  "three_frames = [(env_at 1, [0]), (failing_env, [1 / 2]), (env_at 3, [- 1])]"

text \<open>A fragment of the user's own speech, and a session in which the user has sent one
  text.\<close>

definition spoken_message :: "string \<Rightarrow> LiveServerMessage" where
  "spoken_message t =
     Some (plain_content\<lparr>inputTranscription := Some \<lparr>transcription_text = Some t\<rparr>\<rparr>)"

definition chatting_state :: app_state where
  "chatting_state = handleSendText (env_at 1) (setInputText ''hi there'' connected_state)"

section \<open>Properties of the wire format\<close>

subsection \<open>Base64 decoding inverts base64 encoding\<close>

lemma b64_alphabet_length: "length b64_alphabet = 64"
  unfolding b64_alphabet_def by simp

lemma b64_alphabet_distinct: "distinct b64_alphabet"
  unfolding b64_alphabet_def by simp

lemma b64_index_char: "i < 64 \<Longrightarrow> b64_index (b64_char i) = Some i"
  unfolding b64_index_def b64_char_def
  using map_of_zip_nth [of b64_alphabet "[0..<64]" i]
  by (simp add: b64_alphabet_length b64_alphabet_distinct)

lemma b64_alphabet_plain:
  "list_all (\<lambda>c. c \<noteq> CHR ''='' \<and> \<not> is_ascii_whitespace c) b64_alphabet"
  by code_simp

lemma b64_char_plain:
  assumes "i < 64"
  shows "b64_char i \<noteq> CHR ''=''" and "\<not> is_ascii_whitespace (b64_char i)"
proof -
  have "b64_char i \<in> set b64_alphabet"
    using assms by (simp add: b64_char_def b64_alphabet_length)
  then show "b64_char i \<noteq> CHR ''=''" and "\<not> is_ascii_whitespace (b64_char i)"
    using b64_alphabet_plain by (auto simp: list_all_iff)
qed

lemma sextets_bound:
  "\<forall>a\<in>set os. a < 256 \<Longrightarrow> \<forall>x\<in>set (sextets os). x < 64"
proof (induction os rule: sextets.induct)
  case (1 a b c r)
  then have "a < 256" "b < 256" "c < 256" by simp_all
  moreover have "\<forall>x\<in>set (sextets r). x < 64" using 1 by simp
  ultimately show ?case by (auto)
next
  case (2 a b)
  then have "a < 256" "b < 256" by simp_all
  then show ?case by auto
next
  case (3 a)
  then have "a < 256" by simp
  then show ?case by auto
qed simp

lemma octets_sextets:
  "\<forall>a\<in>set os. a < 256 \<Longrightarrow> octets (sextets os) = os"
proof (induction os rule: sextets.induct)
  case (1 a b c r)
  then have "a < 256" "b < 256" "c < 256" and "octets (sextets r) = r" by simp_all
  then show ?case by simp
next
  case (2 a b)
  then have "a < 256" "b < 256" by simp_all
  then show ?case by simp
next
  case (3 a)
  then show ?case by simp
qed simp

lemma length_sextets:
  "length (sextets os) = 4 * (length os div 3) + (if length os mod 3 = 0 then 0 else length os mod 3 + 1)"
  by (induction os rule: sextets.induct) (simp_all)


lemma length_sextets_mod4:
  "length (sextets os) mod 4 = (if length os mod 3 = 0 then 0 else length os mod 3 + 1)"
proof -
  have "length os mod 3 < 3" by simp
  then show ?thesis unfolding length_sextets by (auto simp: mod_mult_self4)
qed

lemma strip_padding_append:
  assumes "body = [] \<or> last body \<noteq> CHR ''=''" and "k \<le> 2"
  shows "strip_padding (body @ replicate k (CHR ''='')) = body"
proof -
  consider "k = 0" | "k = 1" | "k = 2" using assms(2) by linarith
  then show ?thesis
  proof cases
    case 1
    then show ?thesis using assms(1) by (auto simp: strip_padding_def)
  next
    case 2
    then show ?thesis using assms(1) by (auto simp: strip_padding_def)
  next
    case 3
    then have "replicate k (CHR ''='') = [CHR ''='', CHR ''='']" by (simp add: numeral_2_eq_2)
    then show ?thesis using assms(1) by (auto simp: strip_padding_def Let_def butlast_append)
  qed
qed

lemma those_b64_index:
  "\<forall>x\<in>set xs. x < 64 \<Longrightarrow> those (map b64_index (map b64_char xs)) = Some xs"
  by (induction xs) (simp_all add: b64_index_char)

lemma atob_btoa: "atob (btoa binary) = Inr binary"
proof -
  define os :: "nat list" where "os = map of_char binary"
  define body where "body = map b64_char (sextets os)"
  define k where "k = (3 - length binary mod 3) mod 3"
  have os_small: "\<forall>a\<in>set os. a < 256"
    by (auto simp: os_def)
  have sx_small: "\<forall>x\<in>set (sextets os). x < 64"
    using os_small by (rule sextets_bound)
  have len_os: "length os = length binary" by (simp add: os_def)
  have btoa_eq: "btoa binary = body @ replicate k (CHR ''='')"
    by (simp add: btoa_def body_def os_def k_def)
  have no_ws: "filter (\<lambda>c. \<not> is_ascii_whitespace c) (btoa binary) = btoa binary"
  proof -
    have "\<not> is_ascii_whitespace (CHR ''='')" by (simp add: is_ascii_whitespace_def)
    then have "\<forall>c\<in>set (btoa binary). \<not> is_ascii_whitespace c"
      unfolding btoa_eq using sx_small by (auto simp: body_def dest: b64_char_plain(2))
    then show ?thesis by simp
  qed
  have len_body: "length body mod 4 = (if length binary mod 3 = 0 then 0 else length binary mod 3 + 1)"
    by (simp add: body_def length_sextets_mod4 len_os)
  have len_btoa: "length (btoa binary) = length body + k"
    by (simp add: btoa_eq)
  have "length binary mod 3 < 3" by simp
  then consider "length binary mod 3 = 0" | "length binary mod 3 = 1" | "length binary mod 3 = 2"
    by linarith
  then have pad: "k \<le> 2 \<and> length body mod 4 \<noteq> 1 \<and> (length body mod 4 + k) mod 4 = 0"
    by cases (simp_all add: len_body k_def)
  then have k2: "k \<le> 2" and body_not1: "length body mod 4 \<noteq> Suc 0" by simp_all
  have len4: "length (btoa binary) mod 4 = 0"
    using pad unfolding len_btoa by (simp add: mod_add_left_eq)
  have last_body: "body = [] \<or> last body \<noteq> CHR ''=''"
  proof (cases "body = []")
    case False
    then have "last body \<in> set body" by simp
    then obtain x where "x \<in> set (sextets os)" and "last body = b64_char x"
      by (auto simp: body_def)
    then show ?thesis using sx_small b64_char_plain(1) [of x] by simp
  qed simp
  have strip: "strip_padding (btoa binary) = body"
    unfolding btoa_eq using last_body k2 by (rule strip_padding_append)
  have those: "those (map b64_index body) = Some (sextets os)"
    unfolding body_def using sx_small by (rule those_b64_index)
  have restored: "map char_of (octets (sextets os)) = binary"
    using os_small by (simp add: octets_sextets os_def comp_def)
  show ?thesis
    by (simp add: atob_def Let_def no_ws len4 strip body_not1 those restored)
qed

subsection \<open>The byte views and the PCM conversion\<close>

lemma decode_encode: "decode (encode bytes) = Inr bytes"
proof -
  have "word_of_nat (of_char (char_of (unat b)) :: nat) = b" for b :: byte
  proof -
    have "unat b < 256" using unsigned_less [of b] by simp
    then show ?thesis by (simp add: of_char_of)
  qed
  then show ?thesis by (simp add: decode_def encode_def atob_btoa comp_def)
qed

lemma int16_halves: "(ucast (ucast w :: byte) OR push_bit 8 (ucast (ucast (drop_bit 8 w) :: byte))) = (w :: int16)"
  by (rule bit_word_eqI) (auto simp add: bit_simps)

lemma Int16Array_of_Uint8Array_inverse:
  "Int16Array_of_Uint8Array (Uint8Array_of_Int16Array ws) = Inr ws"
  by (induction ws) (simp_all add: Uint8Array_of_Int16Array_def int16_halves)

lemma decodeAudioData_mono:
  assumes "ws \<noteq> []"
  shows "decodeAudioData (Uint8Array_of_Int16Array ws) rate 1 =
           Inr \<lparr> channelData = [map (\<lambda>w. real_of_int (sint w) / 32768) ws],
                 sampleRate = rate, frames = length ws \<rparr>"
proof -
  have "map (\<lambda>i. real_of_int (sint (ws ! i)) / 32768) [0..<length ws] =
        map (\<lambda>w. real_of_int (sint w) / 32768) (map ((!) ws) [0..<length ws])"
    by (simp add: comp_def)
  then have "map (\<lambda>i. real_of_int (sint (ws ! i)) / 32768) [0..<length ws] =
        map (\<lambda>w. real_of_int (sint w) / 32768) ws"
    by (simp only: map_nth)
  then show ?thesis
    using assms
    by (simp add: decodeAudioData_def Int16Array_of_Uint8Array_inverse Let_def)
qed

lemma round_trip_eq:
  assumes "inputData \<noteq> []"
  shows "round_trip inputData =
           Inr (map (\<lambda>x. real_of_int (sint (ToInt16 (x * 32768))) / 32768) inputData)"
proof -
  have "float_to_int16 inputData \<noteq> []"
    using assms by (simp add: float_to_int16_def)
  from decodeAudioData_mono [OF this, of 24000] show ?thesis
    by (simp add: round_trip_def pcmBlob_def decode_encode float_to_int16_def comp_def
          del: One_nat_def)
qed

lemma js_trunc_near: "\<bar>real_of_int (js_trunc y) - y\<bar> < 1"
  unfolding js_trunc_def by (auto; linarith)

lemma js_trunc_range:
  assumes "- 32768 \<le> y" and "y < 32768"
  shows "- 32768 \<le> js_trunc y" and "js_trunc y < 32768"
  using assms unfolding js_trunc_def by (auto; linarith)+

lemma sint_ToInt16:
  assumes "- 32768 \<le> y" and "y < 32768"
  shows "sint (ToInt16 y) = js_trunc y"
  using js_trunc_range [OF assms]
  by (simp add: ToInt16_def sint_sbintrunc' signed_take_bit_int_eq_self)

lemma pcm_sample_exact:
  assumes "- 1 \<le> x" and "x < 1"
  shows "sint (ToInt16 (x * 32768)) = js_trunc (x * 32768)"
  using assms by (intro sint_ToInt16) simp_all

section \<open>The claims about the wire format\<close>

text \<open>
  Claim C3, as the code has it. For every captured sample \<open>x\<close> with \<open>-1 \<le> x < 1\<close> the
  16-bit PCM value that \<open>onaudioprocess\<close> stores is \<open>x * 32768\<close> truncated towards
  zero: it differs from the scaled sample by less than one step and lies within
  \<open>-32768 .. 32767\<close>, so that nothing wraps. The code has no saturation: the statement
  stops short of \<open>x = 1\<close>.
\<close>

theorem pcm_scaling_in_range:
  assumes "\<forall>x\<in>set inputData. - 1 \<le> x \<and> x < 1"
  shows "list_all2
           (\<lambda>x w. sint w = js_trunc (x * 32768)
                   \<and> \<bar>real_of_int (sint w) - x * 32768\<bar> < 1
                   \<and> - 32768 \<le> js_trunc (x * 32768) \<and> js_trunc (x * 32768) \<le> 32767)
           inputData (float_to_int16 inputData)"
proof -
  have "sint (ToInt16 (x * 32768)) = js_trunc (x * 32768)
          \<and> \<bar>real_of_int (sint (ToInt16 (x * 32768))) - x * 32768\<bar> < 1
          \<and> - 32768 \<le> js_trunc (x * 32768) \<and> js_trunc (x * 32768) \<le> 32767"
    if "- 1 \<le> x" and "x < 1" for x
  proof -
    have range: "- 32768 \<le> x * 32768" "x * 32768 < 32768" using that by simp_all
    have exact: "sint (ToInt16 (x * 32768)) = js_trunc (x * 32768)"
      using that by (rule pcm_sample_exact)
    show ?thesis
      using exact js_trunc_near [of "x * 32768"] js_trunc_range [OF range] by simp
  qed
  then show ?thesis
    using assms by (simp add: float_to_int16_def list_all2_map2 list_all2_same)
qed

theorem pcm_scaling_in_range_witness:
  "list_all (\<lambda>x. - 1 \<le> x \<and> x < (1::real)) [- 1, 1 / 2, - 3 / 10]
     \<and> map sint (float_to_int16 [- 1, 1 / 2, - 3 / 10]) = [- 32768, 16384, - 9830]"
  using pcm_scaling_in_range [of "[- 1, 1 / 2, - 3 / 10]"]
  by (simp add: float_to_int16_def js_trunc_def)

text \<open>
  Claim C3 as stated fails at the sample \<open>+1.0\<close>: the scaled value 32768 does not fit
  16 signed bits and the stored value is \<open>-32768\<close>, not the largest positive value 32767.
\<close>

theorem pcm_full_scale_wraps:
  "map sint (float_to_int16 [1]) = [- 32768]"
  by (simp add: float_to_int16_def ToInt16_def js_trunc_def)

text \<open>
  Claim C2, as the code has it. A non-empty captured frame whose samples all satisfy
  \<open>-1 \<le> x < 1\<close>, converted to 16-bit PCM, packed low byte first, base64-encoded by
  \<open>encode\<close>, then decoded by \<open>decode\<close> and \<open>decodeAudioData\<close>, comes back with the
  same number of samples, each within one quantization step \<open>1/32768\<close> of the
  original.
\<close>

theorem round_trip_quantization:
  assumes "inputData \<noteq> []" and "\<forall>x\<in>set inputData. - 1 \<le> x \<and> x < 1"
  shows "\<exists>out. round_trip inputData = Inr out
           \<and> length out = length inputData
           \<and> (\<forall>i<length inputData. \<bar>out ! i - inputData ! i\<bar> < 1 / 32768)"
proof -
  let ?out = "map (\<lambda>x. real_of_int (sint (ToInt16 (x * 32768))) / 32768) inputData"
  have "\<bar>?out ! i - inputData ! i\<bar> < 1 / 32768" if "i < length inputData" for i
  proof -
    define x where "x = inputData ! i"
    have "x \<in> set inputData" using that by (simp add: x_def)
    then have "- 1 \<le> x" and "x < 1" using assms(2) by simp_all
    then have "sint (ToInt16 (x * 32768)) = js_trunc (x * 32768)"
      by (rule pcm_sample_exact)
    moreover have "\<bar>real_of_int (js_trunc (x * 32768)) - x * 32768\<bar> < 1"
      by (rule js_trunc_near)
    ultimately have "\<bar>real_of_int (sint (ToInt16 (x * 32768))) / 32768 - x\<bar> < 1 / 32768"
      by (simp add: field_simps)
    then show ?thesis using that by (simp add: x_def)
  qed
  then show ?thesis
    using round_trip_eq [OF assms(1)] by simp
qed

theorem round_trip_quantization_witness:
  "[1 / 2, - 1, 1 / 3] \<noteq> ([] :: real list)
     \<and> list_all (\<lambda>x. - 1 \<le> x \<and> x < (1::real)) [1 / 2, - 1, 1 / 3]
     \<and> round_trip [1 / 2, - 1, 1 / 3] = Inr [1 / 2, - 1, 10922 / 32768]"
  using round_trip_quantization [of "[1 / 2, - 1, 1 / 3]"]
  by (simp add: round_trip_eq ToInt16_def js_trunc_def)

text \<open>
  Claim C2 as stated fails for a frame that holds the sample \<open>+1.0\<close>: it comes back as
  \<open>-1.0\<close>, an error of 2 where the quantization step is \<open>1/32768\<close>.
\<close>

theorem round_trip_full_scale_inverted:
  "round_trip [1] = Inr [- 1]"
  by (simp add: round_trip_eq ToInt16_def js_trunc_def)

section \<open>Properties of the rounding\<close>

lemma powi_neg: "0 \<le> k \<Longrightarrow> 2 powi (- k) = 1 / (2::real) ^ nat k"
  by (cases "k = 0") (simp_all add: power_int_def power_one_over inverse_eq_divide)

lemma powi_less_exp:
  assumes "(2::real) powi m < 2 powi n"
  shows "m < n"
proof (rule ccontr)
  assume "\<not> m < n"
  then have "(2::real) powi n \<le> 2 powi m" by (intro power_int_increasing) simp_all
  then show False using assms by simp
qed

lemma binade_bounds:
  assumes "0 < a"
  shows "2 powi (binade a) \<le> a" and "a < 2 powi (binade a + 1)"
proof -
  show "2 powi (binade a) \<le> a"
  proof (cases "1 \<le> a")
    case True
    then have pos: "0 < \<lfloor>a\<rfloor>" by linarith
    from bitlen_bounds [OF pos] have "2 ^ nat (bitlen \<lfloor>a\<rfloor> - 1) \<le> \<lfloor>a\<rfloor>" by simp
    then have "(2::real) ^ nat (bitlen \<lfloor>a\<rfloor> - 1) \<le> of_int \<lfloor>a\<rfloor>"
      by (metis of_int_le_iff of_int_numeral of_int_power)
    moreover have "of_int \<lfloor>a\<rfloor> \<le> a" by simp
    ultimately have low: "(2::real) ^ nat (bitlen \<lfloor>a\<rfloor> - 1) \<le> a" by (rule order_trans)
    have "0 \<le> bitlen \<lfloor>a\<rfloor> - 1" using pos by (simp add: bitlen_alt_def)
    then have "2 powi (binade a) = (2::real) ^ nat (bitlen \<lfloor>a\<rfloor> - 1)"
      using True by (simp add: binade_def power_int_def)
    then show ?thesis using low by simp
  next
    case False
    define n where "n = \<lceil>1 / a\<rceil>"
    have "1 < 1 / a" using False assms by simp
    then have n2: "0 < n - 1" unfolding n_def by linarith
    from bitlen_bounds [OF n2] have "n - 1 < 2 ^ nat (bitlen (n - 1))" by simp
    then have "n \<le> 2 ^ nat (bitlen (n - 1))" by simp
    then have "of_int n \<le> (2::real) ^ nat (bitlen (n - 1))"
      by (metis of_int_le_iff of_int_numeral of_int_power)
    moreover have "1 / a \<le> of_int n" unfolding n_def by linarith
    ultimately have "1 / a \<le> 2 ^ nat (bitlen (n - 1))" by linarith
    then have low: "1 / 2 ^ nat (bitlen (n - 1)) \<le> a"
      using assms by (simp add: field_simps)
    have "0 \<le> bitlen (n - 1)" by (rule bitlen_nonneg)
    then have "2 powi (binade a) = 1 / (2::real) ^ nat (bitlen (n - 1))"
      using False powi_neg [of "bitlen (n - 1)"] by (simp add: binade_def n_def)
    then show ?thesis using low by simp
  qed
  show "a < 2 powi (binade a + 1)"
  proof (cases "1 \<le> a")
    case True
    then have pos: "0 < \<lfloor>a\<rfloor>" by linarith
    from bitlen_bounds [OF pos] have "\<lfloor>a\<rfloor> + 1 \<le> 2 ^ nat (bitlen \<lfloor>a\<rfloor>)" by simp
    then have "of_int (\<lfloor>a\<rfloor> + 1) \<le> (2::real) ^ nat (bitlen \<lfloor>a\<rfloor>)"
      by (metis of_int_le_iff of_int_numeral of_int_power)
    moreover have "a < of_int (\<lfloor>a\<rfloor> + 1)" by linarith
    ultimately have up: "a < (2::real) ^ nat (bitlen \<lfloor>a\<rfloor>)" by (rule less_le_trans [rotated])
    have "0 \<le> bitlen \<lfloor>a\<rfloor>" by (rule bitlen_nonneg)
    then have "2 powi (binade a + 1) = (2::real) ^ nat (bitlen \<lfloor>a\<rfloor>)"
      using True by (simp add: binade_def power_int_def)
    then show ?thesis using up by simp
  next
    case False
    define n where "n = \<lceil>1 / a\<rceil>"
    define m where "m = bitlen (n - 1)"
    have "1 < 1 / a" using False assms by simp
    then have n2: "0 < n - 1" unfolding n_def by linarith
    have m1: "1 \<le> m" using n2 by (simp add: m_def bitlen_alt_def)
    from bitlen_bounds [OF n2] have "2 ^ nat (m - 1) \<le> n - 1" by (simp add: m_def)
    then have "(2::real) ^ nat (m - 1) \<le> of_int (n - 1)"
      by (metis of_int_le_iff of_int_numeral of_int_power)
    moreover have "of_int (n - 1) < 1 / a" unfolding n_def by linarith
    ultimately have "2 ^ nat (m - 1) < 1 / a" by linarith
    then have up: "a < 1 / 2 ^ nat (m - 1)"
      using assms by (simp add: field_simps)
    have "2 powi (1 - m) = 1 / (2::real) ^ nat (m - 1)"
      using powi_neg [of "m - 1"] m1 by simp
    moreover have "binade a + 1 = 1 - m"
      using \<open>\<not> 1 \<le> a\<close> by (simp add: binade_def n_def m_def)
    ultimately show ?thesis using up by simp
  qed
qed

lemma round_half_even_near: "\<bar>of_int (round_half_even y) - y\<bar> \<le> 1 / 2"
  unfolding round_half_even_def Let_def by (auto; linarith)

lemma round_half_even_floor: "\<lfloor>y\<rfloor> \<le> round_half_even y"
  unfolding round_half_even_def Let_def by auto


lemma to_double_error:
  assumes "x \<noteq> 0"
  shows "\<bar>to_double x - x\<bar> \<le> 2 powi (max (binade \<bar>x\<bar>) (- 1022) - 53)"
proof -
  define e where "e = max (binade \<bar>x\<bar>) (- 1022)"
  define q :: real where "q = 2 powi (e - 52)"
  define n where "n = round_half_even (\<bar>x\<bar> / q)"
  have q_pos: "0 < q" by (simp add: q_def)
  have td: "to_double x = sgn x * of_int n * q"
    using assms by (simp add: to_double_def Let_def e_def q_def n_def)
  have "x = sgn x * (\<bar>x\<bar> / q) * q"
    using q_pos by (simp add: sgn_real_def)
  then have "to_double x - x = sgn x * (of_int n - \<bar>x\<bar> / q) * q"
    unfolding td by (simp add: algebra_simps)
  then have "\<bar>to_double x - x\<bar> = \<bar>of_int n - \<bar>x\<bar> / q\<bar> * q"
    using assms q_pos by (simp add: abs_mult sgn_real_def)
  also have "\<dots> \<le> 1 / 2 * q"
    using round_half_even_near [of "\<bar>x\<bar> / q"] q_pos unfolding n_def
    by (intro mult_right_mono) simp_all
  also have "1 / 2 * q = 2 powi (e - 53)"
    unfolding q_def by (simp add: power_int_diff)
  finally show ?thesis unfolding e_def .
qed

lemma to_double_relative:
  assumes "2 powi (- 1022) \<le> \<bar>x\<bar>"
  shows "\<bar>to_double x - x\<bar> \<le> \<bar>x\<bar> / 2 ^ 53"
proof -
  have "0 < (2::real) powi (- 1022)" by simp
  then have pos: "0 < \<bar>x\<bar>" using assms by linarith
  then have nz: "x \<noteq> 0" by simp
  have "\<bar>x\<bar> < 2 powi (binade \<bar>x\<bar> + 1)" using pos by (rule binade_bounds(2))
  then have "(2::real) powi (- 1022) < 2 powi (binade \<bar>x\<bar> + 1)" using assms by linarith
  then have "- 1022 < binade \<bar>x\<bar> + 1"
    by (rule powi_less_exp)
  then have e: "max (binade \<bar>x\<bar>) (- 1022) = binade \<bar>x\<bar>" by simp
  have "\<bar>to_double x - x\<bar> \<le> 2 powi (binade \<bar>x\<bar> - 53)"
    using to_double_error [OF nz] unfolding e .
  also have "\<dots> = 2 powi (binade \<bar>x\<bar>) / 2 ^ 53"
    by (simp add: power_int_diff)
  also have "\<dots> \<le> \<bar>x\<bar> / 2 ^ 53"
    using binade_bounds(1) [OF pos] by (simp add: divide_right_mono)
  finally show ?thesis .
qed

lemma to_double_lower:
  assumes "2 powi k \<le> x" and "- 1022 \<le> k"
  shows "2 powi k \<le> to_double x"
proof -
  have "0 < (2::real) powi k" by simp
  then have pos: "0 < x" using assms(1) by linarith
  define e where "e = binade x"
  have "x < 2 powi (e + 1)" unfolding e_def using pos by (rule binade_bounds(2))
  then have "(2::real) powi k < 2 powi (e + 1)" using assms(1) by linarith
  then have "k < e + 1" by (rule powi_less_exp)
  then have ke: "k \<le> e" by simp
  then have emax: "max e (- 1022) = e" using assms(2) by simp
  define q :: real where "q = 2 powi (e - 52)"
  have q_pos: "0 < q" by (simp add: q_def)
  have td: "to_double x = of_int (round_half_even (x / q)) * q"
    using pos emax by (simp add: to_double_def Let_def e_def q_def)
  have "2 powi e \<le> x" unfolding e_def using pos by (rule binade_bounds(1))
  then have "2 powi e / q \<le> x / q" using q_pos by (simp add: divide_right_mono)
  moreover have "2 powi e / q = (2::real) ^ 52"
    unfolding q_def by (simp add: power_int_diff)
  ultimately have "(2::real) ^ 52 \<le> x / q" by simp
  then have "(2::int) ^ 52 \<le> \<lfloor>x / q\<rfloor>" by (simp add: le_floor_iff)
  then have "(2::int) ^ 52 \<le> round_half_even (x / q)"
    using round_half_even_floor [of "x / q"] by linarith
  then have "(2::real) ^ 52 \<le> of_int (round_half_even (x / q))"
    by (metis of_int_le_iff of_int_numeral of_int_power)
  then have "2 ^ 52 * q \<le> of_int (round_half_even (x / q)) * q"
    using q_pos by (simp add: mult_right_mono)
  moreover have "2 ^ 52 * q = 2 powi e"
    unfolding q_def by (simp add: power_int_diff)
  ultimately have "2 powi e \<le> to_double x" unfolding td by simp
  moreover have "(2::real) powi k \<le> 2 powi e" using ke by (simp add: power_int_increasing)
  ultimately show ?thesis by linarith
qed

section \<open>Properties of the playback scheduler\<close>

lemma decoded_audio_empty: "decoded_audio [] = Inl NotSupportedError"
  by (simp add: decoded_audio_def decode_def atob_def strip_padding_def decodeAudioData_def)

lemma accumulate_playback [simp]:
  "scheduled (accumulate m s) = scheduled s"
  "nextStartTime (accumulate m s) = nextStartTime s"
  "activeSources (accumulate m s) = activeSources s"
  "outputAudioContext (accumulate m s) = outputAudioContext s"
  "next_source (accumulate m s) = next_source s"
  "messages (accumulate m s) = messages s"
  by (simp_all add: accumulate_def split: option.splits)

lemma flush_turn_playback [simp]:
  "scheduled (flush_turn env m s) = scheduled s"
  "nextStartTime (flush_turn env m s) = nextStartTime s"
  "activeSources (flush_turn env m s) = activeSources s"
  "outputAudioContext (flush_turn env m s) = outputAudioContext s"
  "next_source (flush_turn env m s) = next_source s"
  by (simp_all add: flush_turn_def Let_def)

lemma stopAllAudio_fields [simp]:
  "scheduled (stopAllAudio s) = scheduled s"
  "nextStartTime (stopAllAudio s) = 0"
  "activeSources (stopAllAudio s) = []"
  "outputAudioContext (stopAllAudio s) = outputAudioContext s"
  "next_source (stopAllAudio s) = next_source s"
  "messages (stopAllAudio s) = messages s"
  by (simp_all add: stopAllAudio_def)

text \<open>A decoded buffer has at least one frame at 24 kHz, so its duration is a double
  well inside the normal range.\<close>

lemma decoded_audio_duration:
  assumes "decoded_audio b64 = Inr b"
  shows "2 powi (- 15) \<le> duration b"
proof -
  have "frames b \<noteq> 0 \<and> sampleRate b = 24000"
    using assms
    by (auto simp: decoded_audio_def decodeAudioData_def Let_def split: sum.splits if_splits)
  then have "1 \<le> real (frames b)" and rate: "sampleRate b = 24000" by simp_all
  then have "1 / 24000 \<le> real (frames b) / sampleRate b"
    by (simp add: divide_right_mono)
  moreover have "(2::real) powi (- 15) \<le> 1 / 24000"
    by (simp add: power_int_minus inverse_eq_divide)
  ultimately have "2 powi (- 15) \<le> real (frames b) / sampleRate b" by linarith
  then show ?thesis unfolding duration_def by (rule to_double_lower) simp
qed

lemma unit_end_mark_near:
  assumes "0 \<le> start_at u" and "2 powi (- 15) \<le> duration (buffer u)"
  shows "end_mark_near u"
proof -
  let ?sum = "start_at u + duration (buffer u)"
  have "(2::real) powi (- 1022) \<le> 2 powi (- 15)" by (intro power_int_increasing) simp_all
  then have "2 powi (- 1022) \<le> ?sum" using assms by linarith
  moreover have "0 < (2::real) powi (- 15)" by simp
  then have "0 \<le> ?sum" using assms by linarith
  ultimately have "\<bar>to_double ?sum - ?sum\<bar> \<le> ?sum / 2 ^ 53"
    using to_double_relative [of ?sum] by simp
  then show ?thesis by (simp add: end_mark_near_def end_mark_def)
qed

text \<open>What one call of the playback block does to the schedule and the watermark.\<close>

lemma play_audio_scheduled:
  assumes "base64Audio m = Some b64" and "decoded_audio b64 = Inr b"
    and "outputAudioContext s" and "0 \<le> nextStartTime s \<or> 0 \<le> currentTime env"
  shows "scheduled (play_audio env m s) =
           scheduled s @ [\<lparr> source = next_source s, buffer = b,
                             start_at = max (nextStartTime s) (currentTime env),
                             clock_at = currentTime env \<rparr>]"
    and "nextStartTime (play_audio env m s) =
           to_double (max (nextStartTime s) (currentTime env) + duration b)"
    and "activeSources (play_audio env m s) = Set_add (next_source s) (activeSources s)"
proof -
  have "b64 \<noteq> []" using assms(2) decoded_audio_empty by auto
  then show "scheduled (play_audio env m s) =
           scheduled s @ [\<lparr> source = next_source s, buffer = b,
                             start_at = max (nextStartTime s) (currentTime env),
                             clock_at = currentTime env \<rparr>]"
    and "nextStartTime (play_audio env m s) =
           to_double (max (nextStartTime s) (currentTime env) + duration b)"
    and "activeSources (play_audio env m s) = Set_add (next_source s) (activeSources s)"
    using assms
    by (auto simp: play_audio_def Let_def add_source_def start_source_def try_catch_def)
qed

lemma play_audio_cases:
  "(scheduled (play_audio env m s) = scheduled s
      \<and> nextStartTime s \<le> nextStartTime (play_audio env m s))
   \<or> (\<exists>u. scheduled (play_audio env m s) = scheduled s @ [u]
          \<and> start_at u = max (nextStartTime s) (currentTime env)
          \<and> clock_at u = currentTime env
          \<and> nextStartTime (play_audio env m s) = end_mark u
          \<and> end_mark_near u)"
proof (cases "\<exists>b64 b. base64Audio m = Some b64 \<and> decoded_audio b64 = Inr b
                \<and> outputAudioContext s \<and> (0 \<le> nextStartTime s \<or> 0 \<le> currentTime env)")
  case True
  then obtain b64 b where h: "base64Audio m = Some b64" "decoded_audio b64 = Inr b"
      "outputAudioContext s" "0 \<le> nextStartTime s \<or> 0 \<le> currentTime env"
    by blast
  define u where "u = \<lparr> source = next_source s, buffer = b,
                         start_at = max (nextStartTime s) (currentTime env),
                         clock_at = currentTime env \<rparr>"
  have "scheduled (play_audio env m s) = scheduled s @ [u]"
    unfolding u_def using h by (rule play_audio_scheduled(1))
  moreover have "nextStartTime (play_audio env m s) = end_mark u"
    using play_audio_scheduled(2) [OF h] by (simp add: end_mark_def u_def)
  moreover have "end_mark_near u"
  proof (rule unit_end_mark_near)
    show "0 \<le> start_at u" using h(4) by (auto simp: u_def)
    show "2 powi (- 15) \<le> duration (buffer u)"
      using decoded_audio_duration [OF h(2)] by (simp add: u_def)
  qed
  moreover have "start_at u = max (nextStartTime s) (currentTime env)"
    and "clock_at u = currentTime env"
    by (simp_all add: u_def)
  ultimately show ?thesis by blast
next
  case False
  then have "scheduled (play_audio env m s) = scheduled s
      \<and> nextStartTime s \<le> nextStartTime (play_audio env m s)"
    by (auto simp: play_audio_def Let_def add_source_def start_source_def try_catch_def
          console_error_def split: option.splits sum.splits)
  then show ?thesis by blast
qed

lemma onmessage_cases:
  assumes "\<not> is_interrupted m"
  shows "(scheduled (onmessage env m s) = scheduled s
            \<and> nextStartTime s \<le> nextStartTime (onmessage env m s))
         \<or> (\<exists>u. scheduled (onmessage env m s) = scheduled s @ [u]
                \<and> start_at u = max (nextStartTime s) (currentTime env)
                \<and> clock_at u = currentTime env
                \<and> nextStartTime (onmessage env m s) = end_mark u
                \<and> end_mark_near u)"
  using assms play_audio_cases [of env m "flush_turn env m (accumulate m s)"]
  by (simp add: onmessage_def Let_def)

lemma onmessage_clock:
  "scheduled (onmessage env m s) = scheduled s
   \<or> (\<exists>u. scheduled (onmessage env m s) = scheduled s @ [u] \<and> clock_at u \<le> start_at u)"
  using play_audio_cases [of env m "flush_turn env m (accumulate m s)"]
  by (auto simp: onmessage_def Let_def)

lemma handler_schedule:
  "scheduled (handleSendText env s) = scheduled s"
  "scheduled (handleStartSession_reset env s) = scheduled s"
  "scheduled (handleStartSession_contexts s) = scheduled s"
  "scheduled (handleStartSession_resolved env session p s) = scheduled s"
  "scheduled (handleStartSession_failed s) = scheduled s"
  "scheduled (onopen s) = scheduled s"
  "scheduled (onerror s) = scheduled s"
  "scheduled (onclose s) = scheduled s"
  "scheduled (onaudioprocess session env inputData s) = scheduled s"
  "scheduled (onended src s) = scheduled s"
  "scheduled (handleStopSession env s) = scheduled s"
  "scheduled (setInputText t s) = scheduled s"
  by (simp_all add: handleSendText_def handleStartSession_reset_def
        handleStartSession_contexts_def handleStartSession_resolved_def
        handleStartSession_failed_def onopen_def onerror_def onclose_def onaudioprocess_def
        onended_def handleStopSession_def setInputText_def Let_def stopAllAudio_def
        try_catch_def session_close_def sendRealtimeInput_def console_error_def
        split: option.splits)

lemma handler_watermark:
  "nextStartTime (handleSendText env s) = nextStartTime s"
  "nextStartTime (handleStartSession_contexts s) = nextStartTime s"
  "nextStartTime (handleStartSession_resolved env session p s) = nextStartTime s"
  "nextStartTime (handleStartSession_failed s) = nextStartTime s"
  "nextStartTime (onopen s) = nextStartTime s"
  "nextStartTime (onerror s) = nextStartTime s"
  "nextStartTime (onaudioprocess session env inputData s) = nextStartTime s"
  "nextStartTime (onended src s) = nextStartTime s"
  "nextStartTime (setInputText t s) = nextStartTime s"
  by (simp_all add: handleSendText_def
        handleStartSession_contexts_def handleStartSession_resolved_def
        handleStartSession_failed_def onopen_def onerror_def onaudioprocess_def
        onended_def setInputText_def Let_def
        try_catch_def sendRealtimeInput_def console_error_def
        split: option.splits)

lemma dispatch_cases:
  assumes "\<not> flushes_playback ev"
  shows "(scheduled (dispatch env ev s) = scheduled s
            \<and> nextStartTime s \<le> nextStartTime (dispatch env ev s))
         \<or> (\<exists>u. scheduled (dispatch env ev s) = scheduled s @ [u]
                \<and> start_at u = max (nextStartTime s) (currentTime env)
                \<and> clock_at u = currentTime env
                \<and> nextStartTime (dispatch env ev s) = end_mark u
                \<and> end_mark_near u)"
proof (cases ev)
  case (OnMessage m)
  then have "\<not> is_interrupted m" using assms by (simp add: flushes_playback_def)
  then show ?thesis using onmessage_cases [of m env s] OnMessage by simp
qed (use assms in \<open>simp_all add: flushes_playback_def handler_schedule handler_watermark\<close>)

lemma dispatch_clock:
  "scheduled (dispatch env ev s) = scheduled s
   \<or> (\<exists>u. scheduled (dispatch env ev s) = scheduled s @ [u] \<and> clock_at u \<le> start_at u)"
proof (cases ev)
  case (OnMessage m)
  then show ?thesis using onmessage_clock [of env m s] by simp
qed (simp_all add: handler_schedule)

lemma run_events_monotone:
  assumes "\<forall>(env, ev)\<in>set evs. \<not> flushes_playback ev" and "w \<le> nextStartTime s"
  shows "\<exists>new. scheduled (run_events evs s) = scheduled s @ new
           \<and> monotone_from w new \<and> list_all end_mark_near new"
  using assms
proof (induction evs arbitrary: s w)
  case Nil
  then show ?case by simp
next
  case (Cons e evs)
  obtain env ev where e: "e = (env, ev)" by (cases e)
  let ?s1 = "dispatch env ev s"
  have quiet: "\<not> flushes_playback ev" and rest: "\<forall>(env, ev)\<in>set evs. \<not> flushes_playback ev"
    using Cons.prems(1) e by simp_all
  from dispatch_cases [OF quiet, of env s]
  show ?case
  proof (elim disjE exE conjE)
    assume same: "scheduled ?s1 = scheduled s" and up: "nextStartTime s \<le> nextStartTime ?s1"
    then have "w \<le> nextStartTime ?s1" using Cons.prems(2) by simp
    from Cons.IH [OF rest this] obtain new
      where "scheduled (run_events evs ?s1) = scheduled ?s1 @ new"
        and "monotone_from w new" and "list_all end_mark_near new"
      by blast
    then show ?thesis using same e by simp
  next
    fix u
    assume one: "scheduled ?s1 = scheduled s @ [u]"
      and start: "start_at u = max (nextStartTime s) (currentTime env)"
      and clock: "clock_at u = currentTime env"
      and mark: "nextStartTime ?s1 = end_mark u"
      and near: "end_mark_near u"
    have "end_mark u \<le> nextStartTime ?s1" using mark by simp
    from Cons.IH [OF rest this] obtain new
      where run: "scheduled (run_events evs ?s1) = scheduled ?s1 @ new"
        and mono: "monotone_from (end_mark u) new"
        and nears: "list_all end_mark_near new"
      by blast
    have "monotone_from w (u # new)"
      using mono start clock Cons.prems(2) by simp
    moreover have "list_all end_mark_near (u # new)"
      using near nears by simp
    moreover have "scheduled (run_events (e # evs) s) = scheduled s @ (u # new)"
      using run one e by simp
    ultimately show ?thesis by blast
  qed
qed

lemma run_events_clock:
  "\<exists>new. scheduled (run_events evs s) = scheduled s @ new
         \<and> list_all (\<lambda>u. clock_at u \<le> start_at u) new"
proof (induction evs arbitrary: s)
  case Nil
  then show ?case by simp
next
  case (Cons e evs)
  obtain env ev where e: "e = (env, ev)" by (cases e)
  let ?s1 = "dispatch env ev s"
  from Cons.IH [of ?s1] obtain new
    where run: "scheduled (run_events evs ?s1) = scheduled ?s1 @ new"
      and ok: "list_all (\<lambda>u. clock_at u \<le> start_at u) new"
    by blast
  from dispatch_clock [of env ev s] show ?case
  proof (elim disjE exE conjE)
    assume "scheduled ?s1 = scheduled s"
    then show ?thesis using run ok e by simp
  next
    fix u assume "scheduled ?s1 = scheduled s @ [u]" and "clock_at u \<le> start_at u"
    then have "scheduled (run_events (e # evs) s) = scheduled s @ (u # new)"
      and "list_all (\<lambda>u. clock_at u \<le> start_at u) (u # new)"
      using run ok e by simp_all
    then show ?thesis by blast
  qed
qed

lemma play_audio_context [simp]:
  "outputAudioContext (play_audio env m s) = outputAudioContext s"
  by (simp add: play_audio_def Let_def add_source_def start_source_def try_catch_def
        console_error_def split: option.splits sum.splits)

lemma onmessage_context [simp]:
  "outputAudioContext (onmessage env m s) = outputAudioContext s"
  by (simp add: onmessage_def Let_def)

lemma onmessage_scheduled:
  assumes "base64Audio m = Some b64" and "decoded_audio b64 = Inr b"
    and "outputAudioContext s" and "0 \<le> nextStartTime s \<or> 0 \<le> currentTime env"
  shows "scheduled (onmessage env m s) =
           scheduled s @ [\<lparr> source = next_source s, buffer = b,
                             start_at = max (nextStartTime s) (currentTime env),
                             clock_at = currentTime env \<rparr>]"
    and "\<not> is_interrupted m \<Longrightarrow>
           nextStartTime (onmessage env m s) =
             to_double (max (nextStartTime s) (currentTime env) + duration b)"
  using play_audio_scheduled [of m b64 b "flush_turn env m (accumulate m s)" env] assms
  by (simp_all add: onmessage_def Let_def)

lemma onmessage_interrupted:
  assumes "is_interrupted m"
  shows "activeSources (onmessage env m s) = []" and "nextStartTime (onmessage env m s) = 0"
  using assms by (simp_all add: onmessage_def Let_def)

lemma burst_schedule:
  "map start_at (scheduled (run_events burst connected_state)) =
     [5, 2814773223354619 / 562949953421312, 7]"
  by code_simp

lemma one_frame_duration: "duration one_frame = 6148914691236517 / 147573952589676412928"
  by code_simp

lemma burst_quiet: "list_all (\<lambda>(env, ev). \<not> flushes_playback ev) burst"
  by code_simp

lemma decoded_one_frame: "decoded_audio ''AAA='' = Inr one_frame"
  by code_simp

lemma audio_message_data: "base64Audio (audio_message b64) = Some b64"
  by (simp add: base64Audio_def audio_message_def plain_content_def)

lemma audio_message_quiet: "\<not> is_interrupted (audio_message b64)"
  by (simp add: is_interrupted_def audio_message_def plain_content_def)

lemma interrupt_message_flag: "is_interrupted interrupt_message"
  by (simp add: is_interrupted_def interrupt_message_def plain_content_def)

lemma env_at_fields:
  "currentTime (env_at t) = t" "\<not> send_throws (env_at t)" "\<not> close_throws (env_at t)"
  by (simp_all add: env_at_def)

lemma connected_state_fields:
  "outputAudioContext connected_state" "nextStartTime connected_state = 0"
  "scheduled connected_state = []" "next_source connected_state = 0"
  "activeSources connected_state = []" "messages connected_state = []"
  "status connected_state = CONNECTED" "sessionRef connected_state = Some 1"
  "scriptProcessorRef connected_state = Some 1"
  by (simp_all add: connected_state_def initial_state_def)

lemma after_interrupt_schedule:
  "map start_at (scheduled (run_events after_interrupt
                    (onmessage (env_at 3) interrupt_message playing_state))) =
     [9, 4, 2251823269933307 / 562949953421312]"
  by code_simp

lemma playing_state_fields:
  "activeSources playing_state = [0]"
  "nextStartTime playing_state = 2533298246643963 / 281474976710656"
  "map start_at (scheduled playing_state) = [9]" "outputAudioContext playing_state"
  by code_simp+

section \<open>The claims about playback\<close>

text \<open>
  Claim C1, as the code has it. Over any sequence of handler calls none of which flushes
  playback (no message with the interrupted flag, no start, stop or close of a session;
  anything else may come in between), the playback units scheduled by the sequence are
  monotone from the watermark they found: each starts at or after the end mark of the
  previous one, which is the previous start plus the previous duration as the code adds
  them, rounded to a double and within a relative \<open>2^-53\<close> of the exact sum; and each
  starts at or after the clock reading of its own scheduling. For one such message whose
  chunk decodes (with an output context, and the watermark or the clock not negative,
  so that \<open>start\<close> accepts the time), the unit starts exactly at
  \<open>max(watermark, currentClockTime)\<close> and the watermark then stands at the rounded sum
  of that start and the duration of the unit.
\<close>

theorem playback_monotone:
  assumes "\<forall>(env, ev)\<in>set evs. \<not> flushes_playback ev"
  shows "(\<exists>new. scheduled (run_events evs s) = scheduled s @ new
             \<and> monotone_from (nextStartTime s) new
             \<and> list_all end_mark_near new)
       \<and> (\<not> is_interrupted m1 \<and> base64Audio m1 = Some b64 \<and> decoded_audio b64 = Inr b
            \<and> outputAudioContext s \<and> (0 \<le> nextStartTime s \<or> 0 \<le> currentTime env1)
          \<longrightarrow> scheduled (onmessage env1 m1 s) =
                scheduled s @ [\<lparr> source = next_source s, buffer = b,
                                  start_at = max (nextStartTime s) (currentTime env1),
                                  clock_at = currentTime env1 \<rparr>]
              \<and> nextStartTime (onmessage env1 m1 s) =
                  to_double (max (nextStartTime s) (currentTime env1) + duration b))"
proof (intro conjI impI)
  show "\<exists>new. scheduled (run_events evs s) = scheduled s @ new
          \<and> monotone_from (nextStartTime s) new \<and> list_all end_mark_near new"
    using assms by (intro run_events_monotone) simp_all
next
  assume h: "\<not> is_interrupted m1 \<and> base64Audio m1 = Some b64 \<and> decoded_audio b64 = Inr b
            \<and> outputAudioContext s \<and> (0 \<le> nextStartTime s \<or> 0 \<le> currentTime env1)"
  then show "scheduled (onmessage env1 m1 s) =
                scheduled s @ [\<lparr> source = next_source s, buffer = b,
                                  start_at = max (nextStartTime s) (currentTime env1),
                                  clock_at = currentTime env1 \<rparr>]"
    using onmessage_scheduled(1) [of m1 b64 b s env1] by simp
  from h show "nextStartTime (onmessage env1 m1 s) =
                  to_double (max (nextStartTime s) (currentTime env1) + duration b)"
    using onmessage_scheduled(2) [of m1 b64 b s env1] by simp
qed

theorem playback_monotone_witness:
  "list_all (\<lambda>(env, ev). \<not> flushes_playback ev) burst
   \<and> (\<exists>new. scheduled (run_events burst connected_state) = scheduled connected_state @ new
          \<and> monotone_from (nextStartTime connected_state) new
          \<and> list_all end_mark_near new)
   \<and> map start_at (scheduled (run_events burst connected_state)) =
        [5, 2814773223354619 / 562949953421312, 7]
   \<and> \<not> is_interrupted (audio_message ''AAA='')
   \<and> base64Audio (audio_message ''AAA='') = Some ''AAA=''
   \<and> decoded_audio ''AAA='' = Inr one_frame
   \<and> outputAudioContext connected_state
   \<and> 0 \<le> nextStartTime connected_state
   \<and> scheduled (onmessage (env_at 5) (audio_message ''AAA='') connected_state) =
        [\<lparr> source = 0, buffer = one_frame, start_at = 5, clock_at = 5 \<rparr>]
   \<and> nextStartTime (onmessage (env_at 5) (audio_message ''AAA='') connected_state) =
        2814773223354619 / 562949953421312"
proof -
  have quiet: "\<forall>(env, ev)\<in>set burst. \<not> flushes_playback ev"
    using burst_quiet by (simp add: list_all_iff)
  have mark: "to_double (737875911863073301157 / 147573952589676412928) =
                2814773223354619 / 562949953421312"
    by code_simp
  from playback_monotone [OF quiet, where s = connected_state and ?m1.0 = "audio_message ''AAA=''"
      and ?b64.0 = "''AAA=''" and b = one_frame and ?env1.0 = "env_at 5"]
  show ?thesis
    using burst_quiet burst_schedule
    by (simp add: decoded_one_frame audio_message_data audio_message_quiet
          connected_state_fields one_frame_duration mark env_at_fields)
qed

text \<open>
  Claim C1 as stated fails on the exact sum: in a burst of two chunks at clock 5, the
  first of one frame, the second unit starts at the double nearest to the sum of the
  first start and the first duration, and that double is below the sum.
\<close>

theorem playback_start_below_exact_sum:
  "list_all (\<lambda>(env, ev). \<not> flushes_playback ev) burst
   \<and> map start_at (scheduled (run_events burst connected_state)) =
        [5, 2814773223354619 / 562949953421312, 7]
   \<and> duration (buffer (scheduled (run_events burst connected_state) ! 0)) =
        6148914691236517 / 147573952589676412928
   \<and> start_at (scheduled (run_events burst connected_state) ! 1)
        < start_at (scheduled (run_events burst connected_state) ! 0)
          + duration (buffer (scheduled (run_events burst connected_state) ! 0))"
  by code_simp

text \<open>
  Claim C4. After a message with the interrupted flag, the active playback set is
  empty; every unit scheduled by any later sequence of handler calls starts at or after
  the clock reading of its scheduling; and the first chunk scheduled afterwards starts at
  \<open>max(0, currentClockTime)\<close>, whatever the watermark was before the interruption.
\<close>

theorem interrupt_clears_playback:
  assumes "is_interrupted m"
  shows "activeSources (onmessage env m s) = []
       \<and> (\<exists>new. scheduled (run_events evs (onmessage env m s)) =
                  scheduled (onmessage env m s) @ new
              \<and> list_all (\<lambda>u. clock_at u \<le> start_at u) new)
       \<and> (base64Audio m' = Some b64 \<and> decoded_audio b64 = Inr b \<and> outputAudioContext s
          \<longrightarrow> scheduled (onmessage env' m' (onmessage env m s)) =
                scheduled (onmessage env m s) @
                  [\<lparr> source = next_source (onmessage env m s), buffer = b,
                     start_at = max 0 (currentTime env'), clock_at = currentTime env' \<rparr>])"
proof (intro conjI impI)
  show "activeSources (onmessage env m s) = []"
    using assms by (rule onmessage_interrupted(1))
  show "\<exists>new. scheduled (run_events evs (onmessage env m s)) =
                  scheduled (onmessage env m s) @ new
              \<and> list_all (\<lambda>u. clock_at u \<le> start_at u) new"
    by (rule run_events_clock)
next
  assume h: "base64Audio m' = Some b64 \<and> decoded_audio b64 = Inr b \<and> outputAudioContext s"
  have zero: "nextStartTime (onmessage env m s) = 0"
    using assms by (rule onmessage_interrupted(2))
  show "scheduled (onmessage env' m' (onmessage env m s)) =
                scheduled (onmessage env m s) @
                  [\<lparr> source = next_source (onmessage env m s), buffer = b,
                     start_at = max 0 (currentTime env'), clock_at = currentTime env' \<rparr>]"
    using onmessage_scheduled(1) [of m' b64 b "onmessage env m s" env'] h zero by simp
qed

theorem interrupt_clears_playback_witness:
  "is_interrupted interrupt_message
   \<and> activeSources playing_state = [0]
   \<and> activeSources (onmessage (env_at 3) interrupt_message playing_state) = []
   \<and> map start_at (scheduled (run_events after_interrupt
                       (onmessage (env_at 3) interrupt_message playing_state))) =
        [9, 4, 2251823269933307 / 562949953421312]
   \<and> base64Audio (audio_message ''AAA='') = Some ''AAA=''
   \<and> decoded_audio ''AAA='' = Inr one_frame
   \<and> outputAudioContext playing_state
   \<and> map start_at (scheduled (onmessage (env_at 4) (audio_message ''AAA='')
                       (onmessage (env_at 3) interrupt_message playing_state))) = [9, 4]"
proof -
  have same: "scheduled (onmessage (env_at 3) interrupt_message playing_state) = scheduled playing_state"
    by (simp add: onmessage_def Let_def play_audio_def base64Audio_def interrupt_message_def
          plain_content_def)
  from interrupt_clears_playback [OF interrupt_message_flag, where s = playing_state
      and env = "env_at 3" and m' = "audio_message ''AAA=''" and ?b64.0 = "''AAA=''"
      and b = one_frame and env' = "env_at 4" and evs = after_interrupt]
  show ?thesis
    using after_interrupt_schedule
    by (simp add: interrupt_message_flag playing_state_fields decoded_one_frame
          audio_message_data same env_at_fields)
qed

text \<open>
  Claim C5, as the code has it. The interruption flush sets the watermark to 0, not to
  the clock; it is the clamp of the next scheduling that brings it to the clock: the
  next unit starts at \<open>max(0, currentClockTime)\<close>.
\<close>

theorem interrupt_resets_watermark_to_zero:
  assumes "is_interrupted m"
  shows "nextStartTime (onmessage env m s) = 0
       \<and> nextStartTime (stopAllAudio s) = 0
       \<and> (base64Audio m' = Some b64 \<and> decoded_audio b64 = Inr b \<and> outputAudioContext s
          \<longrightarrow> scheduled (onmessage env' m' (onmessage env m s)) =
                scheduled (onmessage env m s) @
                  [\<lparr> source = next_source (onmessage env m s), buffer = b,
                     start_at = max 0 (currentTime env'), clock_at = currentTime env' \<rparr>])"
proof -
  have zero: "nextStartTime (onmessage env m s) = 0"
    using assms by (rule onmessage_interrupted(2))
  then show ?thesis
    using onmessage_scheduled(1) [of m' b64 b "onmessage env m s" env'] by simp
qed

theorem interrupt_resets_watermark_to_zero_witness:
  "is_interrupted interrupt_message
   \<and> nextStartTime playing_state = 2533298246643963 / 281474976710656
   \<and> nextStartTime (onmessage (env_at 3) interrupt_message playing_state) = 0
   \<and> base64Audio (audio_message ''AAA='') = Some ''AAA=''
   \<and> decoded_audio ''AAA='' = Inr one_frame
   \<and> outputAudioContext playing_state
   \<and> map start_at (scheduled (onmessage (env_at 4) (audio_message ''AAA='')
                       (onmessage (env_at 3) interrupt_message playing_state))) = [9, 4]
   \<and> map clock_at (scheduled (onmessage (env_at 4) (audio_message ''AAA='')
                       (onmessage (env_at 3) interrupt_message playing_state))) = [2, 4]"
proof -
  have same: "scheduled (onmessage (env_at 3) interrupt_message playing_state) = scheduled playing_state"
    by (simp add: onmessage_def Let_def play_audio_def base64Audio_def interrupt_message_def
          plain_content_def)
  have clocks: "map clock_at (scheduled playing_state) = [2]"
    by code_simp
  from interrupt_resets_watermark_to_zero [OF interrupt_message_flag, where s = playing_state
      and env = "env_at 3" and m' = "audio_message ''AAA=''" and ?b64.0 = "''AAA=''"
      and b = one_frame and env' = "env_at 4"]
  show ?thesis
    by (simp add: interrupt_message_flag playing_state_fields decoded_one_frame
          audio_message_data same clocks env_at_fields)
qed

text \<open>
  Claim C5 as stated fails: with the output clock at 3, the watermark stored by the
  interruption flush is 0.
\<close>

theorem interrupt_watermark_not_clock:
  "currentTime (env_at 3) = 3
   \<and> nextStartTime (onmessage (env_at 3) interrupt_message playing_state) = 0"
  using onmessage_interrupted(2) [OF interrupt_message_flag] by (simp add: env_at_fields)

section \<open>Properties of the transcript, the session handlers and the capture loop\<close>

lemma play_audio_log [simp]:
  "messages (play_audio env m s) = messages s"
  "currentInputTranscription (play_audio env m s) = currentInputTranscription s"
  "currentOutputTranscription (play_audio env m s) = currentOutputTranscription s"
  by (simp_all add: play_audio_def Let_def add_source_def start_source_def try_catch_def
        console_error_def split: option.splits sum.splits)

lemma stopAllAudio_log [simp]:
  "currentInputTranscription (stopAllAudio s) = currentInputTranscription s"
  "currentOutputTranscription (stopAllAudio s) = currentOutputTranscription s"
  by (simp_all add: stopAllAudio_def)

lemma accumulate_output:
  "currentOutputTranscription (accumulate m s) = currentOutputTranscription s @ output_fragment m"
  by (simp add: accumulate_def output_fragment_def split: option.splits)

lemma accumulate_input:
  "\<exists>t. currentInputTranscription (accumulate m s) = currentInputTranscription s @ t"
  by (simp add: accumulate_def split: option.splits)

lemma onmessage_no_turn:
  assumes "\<not> is_turnComplete m"
  shows "messages (onmessage env m s) = messages s"
    and "currentOutputTranscription (onmessage env m s) =
           currentOutputTranscription s @ output_fragment m"
    and "currentInputTranscription (onmessage env m s) =
           currentInputTranscription (accumulate m s)"
  using assms by (simp_all add: onmessage_def Let_def flush_turn_def accumulate_output)

lemma onmessage_turn:
  assumes "is_turnComplete m"
  shows "messages (onmessage env m s) =
           messages s @
             (if currentOutputTranscription s @ output_fragment m = [] then []
              else [\<lparr> msg_id = random_id env, role = Assistant,
                      msg_text = currentOutputTranscription s @ output_fragment m,
                      timestamp = date_now env \<rparr>])"
    and "currentInputTranscription (onmessage env m s) = []"
    and "currentOutputTranscription (onmessage env m s) = []"
  using assms
  by (simp_all add: onmessage_def Let_def flush_turn_def accumulate_output)

lemma run_messages_append:
  "run_messages (xs @ ys) s = run_messages ys (run_messages xs s)"
  by (induction xs arbitrary: s) auto

lemma run_messages_no_turn:
  assumes "\<forall>(env, m)\<in>set evs. \<not> is_turnComplete m"
  shows "messages (run_messages evs s) = messages s
       \<and> currentOutputTranscription (run_messages evs s) =
           currentOutputTranscription s @ concat (map (\<lambda>(env, m). output_fragment m) evs)"
  using assms
proof (induction evs arbitrary: s)
  case Nil
  then show ?case by simp
next
  case (Cons ev evs)
  obtain env m where ev: "ev = (env, m)" by (cases ev)
  have "\<not> is_turnComplete m" and "\<forall>(env, m)\<in>set evs. \<not> is_turnComplete m"
    using Cons.prems ev by simp_all
  then show ?case
    using Cons.IH [of "onmessage env m s"] ev by (simp add: onmessage_no_turn)
qed

lemma playing_stop:
  "closed_sessions (handleStopSession (env_at 6) playing_state) = [1]"
  "disconnected (handleStopSession (env_at 6) playing_state) = [1]"
  "stopped (handleStopSession (env_at 6) playing_state) = [0]"
  "console (handleStopSession (env_at 6) playing_state) = []"
  by code_simp+

lemma trim_samples: "trim ''  hi there '' = ''hi there''" "trim ''   '' = []"
  by code_simp+

lemma onaudioprocess_eq:
  "onaudioprocess session env inputData s =
     (if send_throws env then s
      else s\<lparr>sent := sent s @ [(session, MediaInput (pcmBlob inputData))]\<rparr>)"
  by (simp add: onaudioprocess_def try_catch_def sendRealtimeInput_def)

lemma three_frames_blobs:
  "pcmBlob [0] = \<lparr>blob_data = ''AAA='', mimeType = ''audio/pcm;rate=16000''\<rparr>"
  "pcmBlob [- 1] = \<lparr>blob_data = ''AIA='', mimeType = ''audio/pcm;rate=16000''\<rparr>"
  by code_simp+

lemma onmessage_user_messages:
  "user_messages (onmessage env m s) = user_messages s"
proof (cases "is_turnComplete m")
  case True
  then show ?thesis by (simp add: user_messages_def onmessage_turn(1))
next
  case False
  then show ?thesis by (simp add: user_messages_def onmessage_no_turn(1))
qed

lemma run_messages_user_messages:
  "user_messages (run_messages evs s) = user_messages s"
proof (induction evs arbitrary: s)
  case Nil
  then show ?case by simp
next
  case (Cons ev evs)
  obtain env m where "ev = (env, m)" by (cases ev)
  then show ?case using Cons.IH [of "onmessage env m s"] by (simp add: onmessage_user_messages)
qed

lemma handler_messages:
  "messages (handleStartSession_reset env s) = messages s"
  "messages (handleStartSession_contexts s) = messages s"
  "messages (handleStartSession_resolved env session p s) = messages s"
  "messages (handleStartSession_failed s) = messages s"
  "messages (onopen s) = messages s"
  "messages (onerror s) = messages s"
  "messages (onclose s) = messages s"
  "messages (onaudioprocess session env inputData s) = messages s"
  "messages (onended src s) = messages s"
  "messages (handleStopSession env s) = messages s"
  by (simp_all add: handleStartSession_reset_def handleStartSession_contexts_def
        handleStartSession_resolved_def
        handleStartSession_failed_def onopen_def onerror_def onclose_def onaudioprocess_def
        onended_def handleStopSession_def Let_def stopAllAudio_def try_catch_def
        session_close_def sendRealtimeInput_def console_error_def split: option.splits)

lemma dispatch_user_messages:
  assumes "ev \<noteq> SendText" and "ev \<noteq> ClearMessages"
  shows "user_messages (dispatch env ev s) = user_messages s"
  using assms
  by (cases ev) (simp_all add: user_messages_def handler_messages setInputText_def
        onmessage_user_messages [unfolded user_messages_def])

lemma chatting_run:
  "user_messages chatting_state =
     [\<lparr> msg_id = ''k3x9q2m1z'', role = User, msg_text = ''hi there'', timestamp = 0 \<rparr>]"
  "currentInputTranscription (onmessage (env_at 2) (spoken_message ''how are you'') chatting_state)
     = ''how are you''"
  "messages (run_messages [(env_at 2, spoken_message ''how are you''),
                           (env_at 3, turn_complete_message)] chatting_state) =
     [\<lparr> msg_id = ''k3x9q2m1z'', role = User, msg_text = ''hi there'', timestamp = 0 \<rparr>]"
  "\<not> is_turnComplete (spoken_message ''how are you'')"
  "is_turnComplete turn_complete_message"
  by code_simp+

section \<open>The claims about the transcript and the session\<close>

text \<open>
  What a turn does in the code: when messages that carry no turn-complete signal are
  followed by one that does, exactly one assistant Message is appended if the outbound
  accumulator, extended by what these messages add to it in arrival order, is non-empty,
  and its text is that string; no Message is appended if it is empty. In both cases the
  inbound and the outbound accumulator are empty afterwards.
\<close>

lemma turn_flush_run:
  assumes "\<forall>(env', m')\<in>set evs. \<not> is_turnComplete m'" and "is_turnComplete m"
  shows "messages (run_messages (evs @ [(env, m)]) s) =
           messages s @
             (if currentOutputTranscription s
                   @ concat (map (\<lambda>(env', m'). output_fragment m') (evs @ [(env, m)])) = []
              then []
              else [\<lparr> msg_id = random_id env, role = Assistant,
                      msg_text = currentOutputTranscription s
                        @ concat (map (\<lambda>(env', m'). output_fragment m') (evs @ [(env, m)])),
                      timestamp = date_now env \<rparr>])
       \<and> currentInputTranscription (run_messages (evs @ [(env, m)]) s) = []
       \<and> currentOutputTranscription (run_messages (evs @ [(env, m)]) s) = []"
proof -
  let ?s1 = "run_messages evs s"
  have before: "messages ?s1 = messages s"
    "currentOutputTranscription ?s1 =
       currentOutputTranscription s @ concat (map (\<lambda>(env', m'). output_fragment m') evs)"
    using run_messages_no_turn [OF assms(1), of s] by simp_all
  have run: "run_messages (evs @ [(env, m)]) s = onmessage env m ?s1"
    by (simp add: run_messages_append)
  show ?thesis
    unfolding run using onmessage_turn [OF assms(2), of env ?s1] before by simp
qed

lemma hello_flush:
  "messages (run_messages (hello_fragments @ [(env_at 3, turn_complete_message)]) connected_state) =
     [\<lparr> msg_id = ''k3x9q2m1z'', role = Assistant, msg_text = ''Hello'', timestamp = 0 \<rparr>]"
  by code_simp

text \<open>
  Claim C6, at the input where the code departs from it: an outbound transcription
  object that carries no text, then the turn-complete signal, from empty accumulators.
  No fragment text has arrived, so the claim has no Message appended; the code has
  appended the string \<open>undefined\<close> to the accumulator and flushes one assistant Message
  with that text.
\<close>

theorem textless_fragment_flushed:
  "currentOutputTranscription connected_state = []
   \<and> currentOutputTranscription (onmessage (env_at 1) textless_fragment_message connected_state) =
       ''undefined''
   \<and> messages (run_messages [(env_at 1, textless_fragment_message),
                               (env_at 2, turn_complete_message)] connected_state) =
       [\<lparr> msg_id = ''k3x9q2m1z'', role = Assistant, msg_text = ''undefined'', timestamp = 0 \<rparr>]"
  by code_simp

text \<open>
  Claim C7. From any state, \<open>handleStopSession\<close> ends in a state with status
  \<open>DISCONNECTED\<close>, no session handle, no capture handle and an empty active playback
  set, and a second call changes nothing: it makes no call that could throw, whatever
  the environment. The only call of the handler that may throw, \<open>close\<close>, is inside a
  \<open>try\<close> block whose handler is empty.
\<close>

theorem stop_idempotent:
  "handleStopSession env2 (handleStopSession env1 s) = handleStopSession env1 s
   \<and> status (handleStopSession env1 s) = DISCONNECTED
   \<and> sessionRef (handleStopSession env1 s) = None
   \<and> scriptProcessorRef (handleStopSession env1 s) = None
   \<and> activeSources (handleStopSession env1 s) = []
   \<and> \<not> isListening (handleStopSession env1 s)
   \<and> \<not> isSpeaking (handleStopSession env1 s)"
  by (simp add: handleStopSession_def Let_def stopAllAudio_def try_catch_def session_close_def
        split: option.splits)

theorem stop_idempotent_witness:
  "status playing_state = CONNECTED
   \<and> close_throws failing_env
   \<and> handleStopSession failing_env (handleStopSession (env_at 6) playing_state) =
       handleStopSession (env_at 6) playing_state
   \<and> status (handleStopSession (env_at 6) playing_state) = DISCONNECTED
   \<and> sessionRef (handleStopSession (env_at 6) playing_state) = None
   \<and> scriptProcessorRef (handleStopSession (env_at 6) playing_state) = None
   \<and> activeSources (handleStopSession (env_at 6) playing_state) = []
   \<and> closed_sessions (handleStopSession (env_at 6) playing_state) = [1]
   \<and> disconnected (handleStopSession (env_at 6) playing_state) = [1]
   \<and> stopped (handleStopSession (env_at 6) playing_state) = [0]
   \<and> console (handleStopSession (env_at 6) playing_state) = []"
proof -
  have "status playing_state = CONNECTED" by code_simp
  moreover have "close_throws failing_env" by (simp add: failing_env_def)
  ultimately show ?thesis
    using stop_idempotent [of failing_env "env_at 6" playing_state] playing_stop by simp
qed

text \<open>
  Claim C8. \<open>handleSendText\<close> changes nothing when the trimmed input is empty, when
  there is no session handle or when the status is not \<open>CONNECTED\<close>. In the connected
  state (status \<open>CONNECTED\<close> with a session handle) and with a non-blank input, it
  hands the trimmed text to the transport, appends exactly one user Message with that
  text and clears the input field, all within the call; if the send throws, no Message
  is appended and nothing is sent: the state is unchanged but for one line on the
  console.
\<close>

theorem send_text:
  "(trim (inputText s) = [] \<or> sessionRef s = None \<or> status s \<noteq> CONNECTED
      \<longrightarrow> handleSendText env s = s)
   \<and> (trim (inputText s) \<noteq> [] \<and> sessionRef s = Some session \<and> status s = CONNECTED
        \<and> \<not> send_throws env
      \<longrightarrow> handleSendText env s =
            s\<lparr> sent := sent s @ [(session, TextInput (trim (inputText s)))],
               messages := messages s @
                 [\<lparr> msg_id = random_id env, role = User,
                    msg_text = trim (inputText s), timestamp = date_now env \<rparr>],
               inputText := [] \<rparr>)
   \<and> (trim (inputText s) \<noteq> [] \<and> sessionRef s = Some session \<and> status s = CONNECTED
        \<and> send_throws env
      \<longrightarrow> handleSendText env s = s\<lparr>console := console s @ [''Failed to send text input:'']\<rparr>
          \<and> messages (handleSendText env s) = messages s
          \<and> sent (handleSendText env s) = sent s)"
  by (simp add: handleSendText_def Let_def try_catch_def sendRealtimeInput_def console_error_def)

theorem send_text_witness:
  "status (setInputText ''  hi there '' initial_state) \<noteq> CONNECTED
   \<and> handleSendText (env_at 1) (setInputText ''  hi there '' initial_state) =
       setInputText ''  hi there '' initial_state
   \<and> trim (inputText (setInputText ''   '' connected_state)) = []
   \<and> handleSendText (env_at 1) (setInputText ''   '' connected_state) = setInputText ''   '' connected_state
   \<and> trim (inputText (setInputText ''  hi there '' connected_state)) \<noteq> []
   \<and> sessionRef (setInputText ''  hi there '' connected_state) = Some 1
   \<and> status (setInputText ''  hi there '' connected_state) = CONNECTED
   \<and> \<not> send_throws (env_at 1)
   \<and> messages (handleSendText (env_at 1) (setInputText ''  hi there '' connected_state)) =
       [\<lparr> msg_id = ''k3x9q2m1z'', role = User, msg_text = ''hi there'', timestamp = 0 \<rparr>]
   \<and> sent (handleSendText (env_at 1) (setInputText ''  hi there '' connected_state)) =
       [(1, TextInput ''hi there'')]
   \<and> send_throws failing_env
   \<and> messages (handleSendText failing_env (setInputText ''  hi there '' connected_state)) = []
   \<and> sent (handleSendText failing_env (setInputText ''  hi there '' connected_state)) = []
   \<and> console (handleSendText failing_env (setInputText ''  hi there '' connected_state)) =
       [''Failed to send text input:'']"
proof -
  have st: "status (setInputText t initial_state) = DISCONNECTED"
    "status (setInputText t connected_state) = CONNECTED"
    "sessionRef (setInputText t connected_state) = Some 1"
    "inputText (setInputText t s) = t"
    "messages (setInputText t connected_state) = []" "sent (setInputText t connected_state) = []"
    "console (setInputText t connected_state) = []" for t s
    by (simp_all add: setInputText_def connected_state_def initial_state_def)
  have envs: "\<not> send_throws (env_at 1)" "send_throws failing_env"
    "random_id (env_at 1) = ''k3x9q2m1z''" "date_now (env_at 1) = 0"
    by (simp_all add: env_at_def failing_env_def)
  from send_text [where s = "setInputText ''  hi there '' initial_state" and env = "env_at 1"]
    send_text [where s = "setInputText ''   '' connected_state" and env = "env_at 1"]
    send_text [where s = "setInputText ''  hi there '' connected_state" and session = 1
      and env = "env_at 1"]
    send_text [where s = "setInputText ''  hi there '' connected_state" and session = 1
      and env = failing_env]
  show ?thesis
    by (simp add: st envs trim_samples)
qed

text \<open>
  Claim C9, as the code has it. Over any sequence of captured frames, the frames whose
  send succeeds reach the transport in capture order, and a frame whose send fails
  changes nothing at all: the failure is swallowed, the later frames are processed, the
  status and the session handle stay as they were, and nothing is logged.
\<close>

theorem capture_survives_send_failure:
  "run_frames session evs s =
     s\<lparr>sent := sent s @
          map (\<lambda>(env, inputData). (session, MediaInput (pcmBlob inputData)))
            (filter (\<lambda>(env, inputData). \<not> send_throws env) evs)\<rparr>"
proof (induction evs arbitrary: s)
  case Nil
  then show ?case by simp
next
  case (Cons ev evs)
  obtain env inputData where ev: "ev = (env, inputData)" by (cases ev)
  show ?case
    unfolding ev using Cons.IH [of "onaudioprocess session env inputData s"]
    by (simp add: onaudioprocess_eq)
qed

theorem capture_survives_send_failure_witness:
  "sent (run_frames 1 three_frames connected_state) =
     [(1, MediaInput \<lparr>blob_data = ''AAA='', mimeType = ''audio/pcm;rate=16000''\<rparr>),
      (1, MediaInput \<lparr>blob_data = ''AIA='', mimeType = ''audio/pcm;rate=16000''\<rparr>)]
   \<and> status (run_frames 1 three_frames connected_state) = CONNECTED
   \<and> sessionRef (run_frames 1 three_frames connected_state) = Some 1
   \<and> console (run_frames 1 three_frames connected_state) = []"
  using capture_survives_send_failure [of 1 three_frames connected_state]
  by (simp add: three_frames_def three_frames_blobs failing_env_def env_at_def
        connected_state_def initial_state_def)

text \<open>
  Claim C9 as stated fails where it says the failure is logged: after a frame whose send
  throws, the console is as empty as before.
\<close>

theorem capture_failure_not_logged:
  "send_throws failing_env
   \<and> console (onaudioprocess 1 failing_env [1 / 2] connected_state) = []"
  by (simp add: onaudioprocess_eq failing_env_def connected_state_def initial_state_def)

text \<open>
  Claim C10. No sequence of transport messages changes the user Messages of the
  conversation log; a message without the turn-complete signal only extends the inbound
  accumulator, and one with it empties the accumulator; of all entry points of the
  component, only \<open>handleSendText\<close> can add a user Message (the clear button empties
  the log, every other entry point leaves the user Messages as they are).
\<close>

theorem user_messages_only_from_sendText:
  "user_messages (run_messages evs s) = user_messages s
   \<and> (\<not> is_turnComplete m
      \<longrightarrow> (\<exists>t. currentInputTranscription (onmessage env m s) = currentInputTranscription s @ t))
   \<and> (is_turnComplete m \<longrightarrow> currentInputTranscription (onmessage env m s) = [])
   \<and> (ev \<noteq> SendText \<and> ev \<noteq> ClearMessages
      \<longrightarrow> user_messages (dispatch env ev s) = user_messages s)
   \<and> messages (dispatch env ClearMessages s) = []"
  using accumulate_input [of m s]
  by (auto simp: run_messages_user_messages onmessage_no_turn(3) onmessage_turn(2)
        dispatch_user_messages)

theorem user_messages_only_from_sendText_witness:
  "\<not> is_turnComplete (spoken_message ''how are you'')
   \<and> is_turnComplete turn_complete_message
   \<and> OnMessage turn_complete_message \<noteq> SendText
   \<and> OnMessage turn_complete_message \<noteq> ClearMessages
   \<and> currentInputTranscription (onmessage (env_at 2) (spoken_message ''how are you'') chatting_state)
       = ''how are you''
   \<and> currentInputTranscription
        (onmessage (env_at 3) turn_complete_message
           (onmessage (env_at 2) (spoken_message ''how are you'') chatting_state)) = []
   \<and> user_messages (dispatch (env_at 3) (OnMessage turn_complete_message)
        (onmessage (env_at 2) (spoken_message ''how are you'') chatting_state)) =
       [\<lparr> msg_id = ''k3x9q2m1z'', role = User, msg_text = ''hi there'', timestamp = 0 \<rparr>]
   \<and> messages (run_messages [(env_at 2, spoken_message ''how are you''),
                               (env_at 3, turn_complete_message)] chatting_state) =
       [\<lparr> msg_id = ''k3x9q2m1z'', role = User, msg_text = ''hi there'', timestamp = 0 \<rparr>]"
proof -
  let ?s1 = "onmessage (env_at 2) (spoken_message ''how are you'') chatting_state"
  from user_messages_only_from_sendText [where s = chatting_state and env = "env_at 2"
      and m = "spoken_message ''how are you''" and evs = "[]" and ev = StartFailed]
    user_messages_only_from_sendText [where s = ?s1 and env = "env_at 3"
      and m = turn_complete_message and evs = "[]" and ev = "OnMessage turn_complete_message"]
    user_messages_only_from_sendText [where s = chatting_state and env = "env_at 2"
      and m = turn_complete_message and evs = "[(env_at 2, spoken_message ''how are you'')]"
      and ev = StartFailed]
  show ?thesis
    using chatting_run by (simp add: onmessage_user_messages)
qed

end
